theory Spec2Isabelle
  imports Complex_Main "HOL-Library.AList"
begin

section \<open>Adaptive test assembly and grading: the data model\<close>

text \<open>
  The development embeds \<^verbatim>\<open>src/utils/smartQuestionSelector.js\<close> (class
  \<^verbatim>\<open>SmartQuestionSelector\<close>) and the handlers \<^verbatim>\<open>getTestById\<close> and
  \<^verbatim>\<open>submitTest\<close> of \<^verbatim>\<open>src/controllers/testController.js\<close>.

  Conventions.
  \<^item> A JavaScript Number that holds a percentage or a ratio is a \<open>real\<close>: the double
    precision arithmetic of the source is idealised to exact arithmetic. Counters and
    lengths are \<open>nat\<close> or \<open>int\<close>. The two agree on every concrete run below; in general
    a product such as \<^verbatim>\<open>45 * (70 / 100)\<close> can fall just under a half that the exact
    product reaches, so a statement about \<open>Math_round\<close> of arbitrary percentages is a
    statement about the exact product.
  \<^item> A MongoDB ObjectId is represented by its 24 digit hexadecimal text (\<open>objectId\<close>);
    \<^verbatim>\<open>x.toString()\<close> of an ObjectId is that text as a JavaScript string.
  \<^item> A value that crosses the HTTP boundary without a schema (a submitted answer, a
    stored \<^verbatim>\<open>correctAnswer\<close>) is a \<open>jsval\<close>, a JavaScript primitive.
  \<^item> \<^verbatim>\<open>Math.random()\<close> is a list of draws handed to the function that consumes them; the
    sandbox, the question generator and the \<^verbatim>\<open>$sample\<close> stage of the database are
    parameters.
\<close>

type_synonym objectId = string

datatype jsval = Undefined | Null | Boolean bool | Num int | Str string

text \<open>\<^verbatim>\<open>a === b\<close> on primitives: same type and same value.\<close>

definition strict_equals :: "jsval \<Rightarrow> jsval \<Rightarrow> bool" where
  "strict_equals a b = (a = b)"

text \<open>\<^verbatim>\<open>String(v)\<close>, which is also what \<^verbatim>\<open>v + "text"\<close> prepends.\<close>

fun digits :: "nat \<Rightarrow> string" where
  "digits n = (if n < 10 then [''0123456789'' ! n]
               else digits (n div 10) @ [''0123456789'' ! (n mod 10)])"

declare digits.simps [simp del]

fun js_String :: "jsval \<Rightarrow> string" where
  "js_String Undefined = ''undefined''"
| "js_String Null = ''null''"
| "js_String (Boolean b) = (if b then ''true'' else ''false'')"
| "js_String (Num n) = (if n < 0 then ''-'' @ digits (nat (- n)) else digits (nat n))"
| "js_String (Str s) = s"

text \<open>\<^verbatim>\<open>Math.round\<close>: the nearest integer, a tie going up.\<close>

definition Math_round :: "real \<Rightarrow> int" where
  "Math_round x = \<lfloor>x + 1 / 2\<rfloor>"

definition Math_ceil :: "real \<Rightarrow> int" where
  "Math_ceil x = \<lceil>x\<rceil>"

subsection \<open>Documents\<close>

record testCase =
  tc_input :: string
  tc_output :: string

text \<open>
  A Question document. \<^verbatim>\<open>models/questionModel.js\<close> is not among the sources; the fields
  are those the sources read and write (\<^verbatim>\<open>createQuestion\<close>, \<^verbatim>\<open>selectQuestions\<close>,
  \<^verbatim>\<open>submitTest\<close>).
\<close>

record question =
  q_id :: objectId
  questionType :: string
  questionText :: string
  options :: "string list"
  correctAnswer :: jsval
  testCases :: "testCase list"
  difficulty :: string
  category :: string
  explanation :: string
  points :: int
  isActive :: bool

record seenQuestion =
  sq_question :: objectId
  sq_test :: objectId
  seenAt :: int
  answeredCorrectly :: bool

record perf =
  attempted :: nat
  correct :: nat

text \<open>
  \<^verbatim>\<open>models/studentQuestionHistoryModel.js\<close>. The two Mongoose Maps are association lists
  in insertion order; \<^verbatim>\<open>seenAt\<close> is in milliseconds since the epoch.
\<close>

record history =
  student :: objectId
  seenQuestions :: "seenQuestion list"
  totalQuestionsAttempted :: nat
  correctAnswers :: nat
  categoryPerformance :: "(string \<times> perf) list"
  difficultyPerformance :: "(string \<times> perf) list"

record difficultyDist =
  easy :: real
  medium :: real
  hard :: real

text \<open>
  \<^verbatim>\<open>typeDist.Coding || 0\<close> reads an absent entry as 0: \<open>Coding\<close> is optional. The source
  never reads \<^verbatim>\<open>typeDist.TrueFalse\<close>.
\<close>

record typeDist =
  MCQ :: real
  Coding :: "real option"
  TrueFalse :: real

record breakdownCell =
  req_difficulty :: string
  req_type :: string
  req_count :: int

section \<open>The Selector: breakdown\<close>

text \<open>
  The body of the loop \<^verbatim>\<open>for (const d of difficulties)\<close> of
  \<^verbatim>\<open>calculateQuestionBreakdown\<close> for one tier \<^verbatim>\<open>{difficulty: d, count: c}\<close>.
\<close>

definition tierCells :: "typeDist \<Rightarrow> string \<Rightarrow> int \<Rightarrow> breakdownCell list" where
  "tierCells typeDist d c =
     (if c \<le> 0 then []
      else
        let mcqCount = Math_round (of_int c * (MCQ typeDist / 100));
            codingCount =
              Math_round (of_int c * ((case Coding typeDist of None \<Rightarrow> 0 | Some v \<Rightarrow> v) / 100));
            tfCount = c - mcqCount - codingCount
        in (if mcqCount > 0
            then [\<lparr>req_difficulty = d, req_type = ''MCQ'', req_count = mcqCount\<rparr>] else [])
         @ (if codingCount > 0
            then [\<lparr>req_difficulty = d, req_type = ''Coding'', req_count = codingCount\<rparr>] else [])
         @ (if tfCount > 0
            then [\<lparr>req_difficulty = d, req_type = ''TrueFalse'', req_count = tfCount\<rparr>] else []))"

definition easyCount :: "int \<Rightarrow> difficultyDist \<Rightarrow> int" where
  "easyCount tot difficultyDist = Math_round (of_int tot * (easy difficultyDist / 100))"

definition mediumCount :: "int \<Rightarrow> difficultyDist \<Rightarrow> int" where
  "mediumCount tot difficultyDist = Math_round (of_int tot * (medium difficultyDist / 100))"

definition hardCount :: "int \<Rightarrow> difficultyDist \<Rightarrow> int" where
  "hardCount tot difficultyDist =
     tot - easyCount tot difficultyDist - mediumCount tot difficultyDist"

definition calculateQuestionBreakdown ::
  "int \<Rightarrow> difficultyDist \<Rightarrow> typeDist \<Rightarrow> breakdownCell list" where
  "calculateQuestionBreakdown tot difficultyDist typeDist =
     tierCells typeDist ''easy'' (easyCount tot difficultyDist)
   @ tierCells typeDist ''medium'' (mediumCount tot difficultyDist)
   @ tierCells typeDist ''hard'' (hardCount tot difficultyDist)"

text \<open>The number of questions a breakdown asks for, and the share of one tier.\<close>

definition breakdownTotal :: "breakdownCell list \<Rightarrow> int" where
  "breakdownTotal breakdown = sum_list (map req_count breakdown)"

definition tierTotal :: "string \<Rightarrow> breakdownCell list \<Rightarrow> int" where
  "tierTotal d breakdown = breakdownTotal (filter (\<lambda>req. req_difficulty req = d) breakdown)"

section \<open>The Grader\<close>

text \<open>
  \<^verbatim>\<open>vm.run(program)\<close> of a fresh vm2 \<^verbatim>\<open>VM({timeout: 1000, sandbox: {}})\<close>: the call
  returns a value (\<open>Returned s\<close>, with \<open>s\<close> the text \<^verbatim>\<open>String(result)\<close>), throws
  a runtime error, or is stopped at the timeout, which vm2 signals by throwing as well.
\<close>

datatype vm_outcome = Returned string | RuntimeError | Timeout

type_synonym sandbox = "string \<Rightarrow> vm_outcome"

record submittedAnswer =
  questionId :: jsval
  answer :: jsval

text \<open>
  The program text
  \<^verbatim>\<open>submittedAnswer.answer + `\n; solution(${testCase.input});`\<close>.
\<close>

definition caseProgram :: "jsval \<Rightarrow> testCase \<Rightarrow> string" where
  "caseProgram ans testCase =
     js_String ans @ [CHR 0x0A] @ ''; solution('' @ tc_input testCase @ '');''"

text \<open>
  The loop \<^verbatim>\<open>for (const testCase of question.testCases)\<close> of \<^verbatim>\<open>submitTest\<close>, with its
  two \<^verbatim>\<open>break\<close>s. The result is \<^verbatim>\<open>passedAllCases\<close> and, to make the sandbox calls
  observable, the programs handed to \<^verbatim>\<open>vm.run\<close>, in order.
\<close>

fun runTestCases :: "sandbox \<Rightarrow> jsval \<Rightarrow> testCase list \<Rightarrow> bool \<times> string list" where
  "runTestCases vm ans [] = (True, [])"
| "runTestCases vm ans (testCase # rest) =
     (case vm (caseProgram ans testCase) of
        Returned result \<Rightarrow>
          if result \<noteq> tc_output testCase then (False, [caseProgram ans testCase])
          else (case runTestCases vm ans rest of
                  (passedAllCases, programs) \<Rightarrow> (passedAllCases, caseProgram ans testCase # programs))
      | RuntimeError \<Rightarrow> (False, [caseProgram ans testCase])
      | Timeout \<Rightarrow> (False, [caseProgram ans testCase]))"

text \<open>
  The body of \<^verbatim>\<open>for (const submittedAnswer of answers)\<close>: the points one submitted
  answer adds to \<^verbatim>\<open>score\<close>.
\<close>

definition answerPoints :: "sandbox \<Rightarrow> question list \<Rightarrow> submittedAnswer \<Rightarrow> nat" where
  "answerPoints vm questions submittedAnswer =
     (case find (\<lambda>q. strict_equals (Str (q_id q)) (questionId submittedAnswer)) questions of
        None \<Rightarrow> 0
      | Some q \<Rightarrow>
          if questionType q = ''MCQ'' then
            (if strict_equals (correctAnswer q) (answer submittedAnswer) then 1 else 0)
          else if questionType q = ''Coding'' then
            (if fst (runTestCases vm (answer submittedAnswer) (testCases q)) then 1 else 0)
          else 0)"

definition gradeAnswers :: "sandbox \<Rightarrow> question list \<Rightarrow> submittedAnswer list \<Rightarrow> nat" where
  "gradeAnswers vm questions answers =
     foldl (\<lambda>score submittedAnswer. score + answerPoints vm questions submittedAnswer) 0 answers"

text \<open>\<^verbatim>\<open>Math.ceil(totalQuestions * 0.6)\<close> and \<^verbatim>\<open>score >= passingScore\<close>.\<close>

definition passingScore :: "nat \<Rightarrow> int" where
  "passingScore totalQuestions = Math_ceil (real totalQuestions * 0.6)"

definition isPassed :: "nat \<Rightarrow> nat \<Rightarrow> bool" where
  "isPassed score totalQuestions = (int score \<ge> passingScore totalQuestions)"

section \<open>The History Tracker and the Difficulty Adviser\<close>

text \<open>\<^verbatim>\<open>checkAnswer(question, answer)\<close> of the selector.\<close>

definition checkAnswer :: "question \<Rightarrow> jsval \<Rightarrow> bool" where
  "checkAnswer q ans =
     (if questionType q = ''MCQ'' \<or> questionType q = ''TrueFalse''
      then strict_equals (correctAnswer q) ans
      else False)"

text \<open>
  \<^verbatim>\<open>perf = map.get(key) || {attempted: 0, correct: 0}; perf.attempted++;
  if (isCorrect) perf.correct++; map.set(key, perf)\<close>.
\<close>

definition bumpPerf :: "bool \<Rightarrow> string \<Rightarrow> (string \<times> perf) list \<Rightarrow> (string \<times> perf) list" where
  "bumpPerf isCorrect key m =
     (let p = (case map_of m key of None \<Rightarrow> \<lparr>attempted = 0, correct = 0\<rparr> | Some p \<Rightarrow> p);
          p1 = p\<lparr>attempted := attempted p + 1\<rparr>;
          p2 = (if isCorrect then p1\<lparr>correct := correct p1 + 1\<rparr> else p1)
      in AList.update key p2 m)"

text \<open>
  The body of \<^verbatim>\<open>for (const q of questions)\<close> of \<^verbatim>\<open>updateStudentHistory\<close>; \<open>now\<close> is
  \<^verbatim>\<open>new Date()\<close>.
\<close>

definition recordQuestion ::
  "int \<Rightarrow> objectId \<Rightarrow> submittedAnswer list \<Rightarrow> history \<Rightarrow> question \<Rightarrow> history" where
  "recordQuestion now testId answers h q =
     (let isCorrect =
            (case find (\<lambda>a. strict_equals (questionId a) (Str (q_id q))) answers of
               None \<Rightarrow> False
             | Some a \<Rightarrow> checkAnswer q (answer a))
      in h\<lparr>seenQuestions := seenQuestions h @
              [\<lparr>sq_question = q_id q, sq_test = testId, seenAt = now,
                answeredCorrectly = isCorrect\<rparr>],
            categoryPerformance := bumpPerf isCorrect (category q) (categoryPerformance h),
            difficultyPerformance := bumpPerf isCorrect (difficulty q) (difficultyPerformance h)\<rparr>)"

datatype error =
  HttpError nat string
| TypeError string
| PersistenceError string

text \<open>
  \<^verbatim>\<open>answers.filter((a, i) => this.checkAnswer(questions[i], a.answer)).length\<close>: the
  answer at index \<open>i\<close> is checked against the question at index \<open>i\<close>. Past the end of
  \<^verbatim>\<open>questions\<close> the callback reads \<^verbatim>\<open>undefined.questionType\<close>, which throws a TypeError.
\<close>

fun countCorrectByIndex :: "question list \<Rightarrow> submittedAnswer list \<Rightarrow> error + nat" where
  "countCorrectByIndex questions [] = Inr 0"
| "countCorrectByIndex [] (a # answers) =
     Inl (TypeError ''Cannot read properties of undefined (reading questionType)'')"
| "countCorrectByIndex (q # questions) (a # answers) =
     (case countCorrectByIndex questions answers of
        Inl e \<Rightarrow> Inl e
      | Inr n \<Rightarrow> Inr ((if checkAnswer q (answer a) then 1 else 0) + n))"

subsection \<open>The database\<close>

record leaveRequest =
  lr_id :: objectId
  lr_subject :: string
  lr_status :: string

record user =
  u_id :: objectId
  u_name :: string
  u_email :: string
  u_role :: string

record notification =
  n_user :: objectId
  n_title :: string
  n_message :: string
  n_type :: string
  n_link :: string

text \<open>
  A Test as \<^verbatim>\<open>Test.findById(id).populate('questions')\<close> returns it: \<open>t_questions\<close> holds
  the referenced Question documents, in the order of the references.
\<close>

record test =
  t_id :: objectId
  t_leaveRequest :: objectId
  t_student :: objectId
  t_questions :: "question list"
  passingPercentage :: int
  shuffleQuestions :: bool
  shuffleOptions :: bool
  t_score :: nat
  totalPoints :: int
  t_status :: string

record submission =
  s_test :: objectId
  s_leaveRequest :: objectId
  s_student :: objectId
  s_answers :: "(jsval \<times> jsval) list"
  s_score :: nat
  s_totalQuestions :: nat
  s_isPassed :: bool
  s_tabSwitchCount :: nat

record pool =
  pool_id :: objectId
  pool_questions :: "objectId list"
  isDefault :: bool
  pool_isActive :: bool

text \<open>
  The collections the engine touches, and the lines \<^verbatim>\<open>console.error\<close> has written. There
  is one history document per student at most: \<^verbatim>\<open>getStudentHistory\<close> creates one only
  when \<^verbatim>\<open>findOne\<close> finds none.
\<close>

record db =
  questions :: "question list"
  pools :: "pool list"
  tests :: "objectId \<Rightarrow> test option"
  submissions :: "submission list"
  histories :: "objectId \<Rightarrow> history option"
  leaveRequests :: "objectId \<Rightarrow> leaveRequest option"
  users :: "user list"
  notifications :: "notification list"
  consoleErrors :: "(string \<times> error) list"

text \<open>\<^verbatim>\<open>new StudentQuestionHistory({student: studentId})\<close> with the defaults of the schema.\<close>

definition newHistory :: "objectId \<Rightarrow> history" where
  "newHistory studentId =
     \<lparr>student = studentId, seenQuestions = [], totalQuestionsAttempted = 0, correctAnswers = 0,
      categoryPerformance = [], difficultyPerformance = []\<rparr>"

definition getStudentHistory :: "db \<Rightarrow> objectId \<Rightarrow> history \<times> db" where
  "getStudentHistory d studentId =
     (case histories d studentId of
        Some h \<Rightarrow> (h, d)
      | None \<Rightarrow> (newHistory studentId,
                 d\<lparr>histories := (histories d)(studentId \<mapsto> newHistory studentId)\<rparr>))"

text \<open>
  \<^verbatim>\<open>updateStudentHistory(studentId, testId, questions, answers)\<close>. \<open>saveFails\<close> says
  whether the final \<^verbatim>\<open>await history.save()\<close> rejects. The function returns the saved
  history or the error it throws, and the database it leaves behind.
\<close>

definition updateStudentHistory ::
  "bool \<Rightarrow> int \<Rightarrow> db \<Rightarrow> objectId \<Rightarrow> objectId \<Rightarrow> question list \<Rightarrow> submittedAnswer list
   \<Rightarrow> (error + history) \<times> db" where
  "updateStudentHistory saveFails now d studentId testId qs answers =
     (case getStudentHistory d studentId of
        (h, d1) \<Rightarrow>
          let h1 = foldl (recordQuestion now testId answers) h qs;
              h2 = h1\<lparr>totalQuestionsAttempted := totalQuestionsAttempted h1 + length qs\<rparr>
          in (case countCorrectByIndex qs answers of
                Inl e \<Rightarrow> (Inl e, d1)
              | Inr n \<Rightarrow>
                  let h3 = h2\<lparr>correctAnswers := correctAnswers h2 + n\<rparr>
                  in if saveFails then (Inl (PersistenceError ''history.save''), d1)
                     else (Inr h3, d1\<lparr>histories := (histories d1)(studentId \<mapsto> h3)\<rparr>)))"

text \<open>\<^verbatim>\<open>getAdaptiveDifficulty(studentId)\<close>.\<close>

definition getAdaptiveDifficulty :: "db \<Rightarrow> objectId \<Rightarrow> difficultyDist \<times> db" where
  "getAdaptiveDifficulty d studentId =
     (case getStudentHistory d studentId of
        (h, d1) \<Rightarrow>
          if totalQuestionsAttempted h < 10 then (\<lparr>easy = 30, medium = 50, hard = 20\<rparr>, d1)
          else
            let overallAccuracy = real (correctAnswers h) / real (totalQuestionsAttempted h)
            in if overallAccuracy \<ge> 0.8 then (\<lparr>easy = 10, medium = 40, hard = 50\<rparr>, d1)
               else if overallAccuracy \<ge> 0.6 then (\<lparr>easy = 25, medium = 50, hard = 25\<rparr>, d1)
               else (\<lparr>easy = 50, medium = 40, hard = 10\<rparr>, d1))"

subsection \<open>submitTest\<close>

record response =
  r_message :: string
  r_score :: nat
  r_isPassed :: bool
  r_totalQuestions :: nat

text \<open>
  The loop \<^verbatim>\<open>for (const admin of admins)\<close>: one in-app notification per admin. The e-mail
  that follows it changes no collection and cannot throw (\<^verbatim>\<open>sendEmail\<close> catches every
  error), so it leaves no trace here.
\<close>

definition adminNotification ::
  "user \<Rightarrow> leaveRequest \<Rightarrow> nat \<Rightarrow> nat \<Rightarrow> bool \<Rightarrow> user \<Rightarrow> notification" where
  "adminNotification reqUser lr score totalQuestions passed admin =
     \<lparr>n_user = u_id admin, n_title = ''Test Completed'',
      n_message = ''Student '' @ u_name reqUser @ '' ('' @ u_email reqUser
        @ '') has completed their test and '' @ (if passed then ''PASSED'' else ''FAILED'')
        @ '' with a score of '' @ digits score @ ''/'' @ digits totalQuestions @ ''.'',
      n_type = ''test_result'', n_link = ''/leave/'' @ lr_id lr\<rparr>"

text \<open>
  \<^verbatim>\<open>new Submission({...})\<close>; \<open>tabSwitchCount\<close> is \<open>None\<close> when the body has none
  (\<^verbatim>\<open>tabSwitchCount || 0\<close>).
\<close>

definition newSubmission ::
  "test \<Rightarrow> user \<Rightarrow> submittedAnswer list \<Rightarrow> nat option \<Rightarrow> nat \<Rightarrow> submission" where
  "newSubmission t reqUser answers tabSwitchCount score =
     \<lparr>s_test = t_id t, s_leaveRequest = t_leaveRequest t, s_student = u_id reqUser,
      s_answers = map (\<lambda>a. (questionId a, answer a)) answers,
      s_score = score, s_totalQuestions = length (t_questions t),
      s_isPassed = isPassed score (length (t_questions t)),
      s_tabSwitchCount = (case tabSwitchCount of None \<Rightarrow> 0 | Some c \<Rightarrow> c)\<rparr>"

text \<open>
  \<^verbatim>\<open>submitTest\<close>, from \<^verbatim>\<open>Test.findById\<close> to \<^verbatim>\<open>res.status(200).json\<close>. The result is the
  response, or the error that \<^verbatim>\<open>asyncHandler\<close> passes on, and the database as the
  handler leaves it.
\<close>

definition submitTest ::
  "sandbox \<Rightarrow> int \<Rightarrow> bool \<Rightarrow> db \<Rightarrow> user \<Rightarrow> objectId \<Rightarrow> submittedAnswer list \<Rightarrow> nat option
   \<Rightarrow> (error + response) \<times> db" where
  "submitTest vm now saveFails d reqUser testId answers tabSwitchCount =
     (case tests d testId of
        None \<Rightarrow> (Inl (HttpError 404 ''Test not found''), d)
      | Some t \<Rightarrow>
          let score = gradeAnswers vm (t_questions t) answers;
              d1 = d\<lparr>tests := (tests d)(testId \<mapsto> t\<lparr>t_score := score, t_status := ''Completed''\<rparr>)\<rparr>;
              totalQuestions = length (t_questions t);
              passed = isPassed score totalQuestions;
              d2 = d1\<lparr>submissions := submissions d1 @
                     [newSubmission t reqUser answers tabSwitchCount score]\<rparr>;
              d3 = (case updateStudentHistory saveFails now d2 (u_id reqUser) (t_id t)
                           (t_questions t) answers of
                      (Inl historyError, d') \<Rightarrow>
                        d'\<lparr>consoleErrors := consoleErrors d' @
                             [(''Failed to update question history:'', historyError)]\<rparr>
                    | (Inr h, d') \<Rightarrow> d')
          in (case leaveRequests d3 (t_leaveRequest t) of
                None \<Rightarrow> (Inl (TypeError ''Cannot set properties of null (setting status)''), d3)
              | Some lr \<Rightarrow>
                  let d4 = d3\<lparr>leaveRequests := (leaveRequests d3)
                             (t_leaveRequest t \<mapsto> lr\<lparr>lr_status := ''Test Completed''\<rparr>)\<rparr>;
                      admins = filter (\<lambda>u. u_role u = ''admin'') (users d4);
                      d5 = d4\<lparr>notifications := notifications d4 @
                             map (adminNotification reqUser lr score totalQuestions passed) admins\<rparr>
                  in (Inr \<lparr>r_message = ''Test submitted successfully'', r_score = score,
                           r_isPassed = passed, r_totalQuestions = totalQuestions\<rparr>, d5)))"

subsection \<open>getTestById\<close>

text \<open>Plain objects, as \<^verbatim>\<open>toObject()\<close> and \<^verbatim>\<open>res.json\<close> see them: fields in order.\<close>

datatype json = Prim jsval | Arr "json list" | Obj "(string \<times> json) list"

definition testCase_toObject :: "testCase \<Rightarrow> json" where
  "testCase_toObject tc =
     Obj [(''input'', Prim (Str (tc_input tc))), (''output'', Prim (Str (tc_output tc)))]"

definition question_toObject :: "question \<Rightarrow> (string \<times> json) list" where
  "question_toObject q =
     [(''_id'', Prim (Str (q_id q))),
      (''questionType'', Prim (Str (questionType q))),
      (''questionText'', Prim (Str (questionText q))),
      (''options'', Arr (map (\<lambda>s. Prim (Str s)) (options q))),
      (''correctAnswer'', Prim (correctAnswer q)),
      (''testCases'', Arr (map testCase_toObject (testCases q))),
      (''difficulty'', Prim (Str (difficulty q))),
      (''category'', Prim (Str (category q))),
      (''explanation'', Prim (Str (explanation q))),
      (''points'', Prim (Num (points q))),
      (''isActive'', Prim (Boolean (isActive q)))]"

definition test_toObject :: "test \<Rightarrow> (string \<times> json) list" where
  "test_toObject t =
     [(''_id'', Prim (Str (t_id t))),
      (''leaveRequest'', Prim (Str (t_leaveRequest t))),
      (''student'', Prim (Str (t_student t))),
      (''questions'', Arr (map (\<lambda>q. Obj (question_toObject q)) (t_questions t))),
      (''config'', Obj [(''passingPercentage'', Prim (Num (passingPercentage t))),
                       (''shuffleQuestions'', Prim (Boolean (shuffleQuestions t))),
                       (''shuffleOptions'', Prim (Boolean (shuffleOptions t)))]),
      (''score'', Prim (Num (int (t_score t)))),
      (''totalPoints'', Prim (Num (totalPoints t))),
      (''status'', Prim (Str (t_status t)))]"

text \<open>
  \<^verbatim>\<open>const { correctAnswer, testCases, ...question } = q.toObject(); return question\<close>:
  the rest of the object once the two named properties are taken out.
\<close>

definition stripQuestion :: "question \<Rightarrow> json" where
  "stripQuestion q =
     Obj (filter (\<lambda>(k, v). k \<noteq> ''correctAnswer'' \<and> k \<noteq> ''testCases'') (question_toObject q))"

text \<open>
  \<^verbatim>\<open>getTestById\<close>: the body of the JSON response
  \<^verbatim>\<open>{ ...test.toObject(), questions }\<close>, or the 404 error.
\<close>

definition getTestById :: "db \<Rightarrow> objectId \<Rightarrow> error + (string \<times> json) list" where
  "getTestById d testId =
     (case tests d testId of
        Some t \<Rightarrow>
          Inr (AList.update ''questions'' (Arr (map stripQuestion (t_questions t)))
                 (test_toObject t))
      | None \<Rightarrow> Inl (HttpError 404 ''Test not found''))"

text \<open>The question objects of a response body, and whether an object has a property.\<close>

definition responseQuestions :: "(string \<times> json) list \<Rightarrow> json list" where
  "responseQuestions body = (case map_of body ''questions'' of Some (Arr qs) \<Rightarrow> qs | _ \<Rightarrow> [])"

fun hasProperty :: "string \<Rightarrow> json \<Rightarrow> bool" where
  "hasProperty k (Obj props) = (k \<in> fst ` set props)"
| "hasProperty k (Arr xs) = False"
| "hasProperty k (Prim v) = False"

section \<open>The Selector: drawing the questions\<close>

text \<open>
  \<^verbatim>\<open>getRecentlySeenQuestionIds(history, days)\<close>. \<open>now\<close> is \<^verbatim>\<open>new Date()\<close> in
  milliseconds; \<^verbatim>\<open>cutoffDate.setDate(cutoffDate.getDate() - days)\<close> moves it back by
  \<open>days\<close> calendar days, taken as days of 86400000 ms. The result is the list of the
  texts \<^verbatim>\<open>sq.question.toString()\<close>.
\<close>

definition getRecentlySeenQuestionIds :: "history \<Rightarrow> int \<Rightarrow> int \<Rightarrow> string list" where
  "getRecentlySeenQuestionIds h days now =
     map sq_question (filter (\<lambda>sq. seenAt sq > now - days * 86400000) (seenQuestions h))"

text \<open>
  The values that stand in the \<^verbatim>\<open>_id\<close> clause of the \<^verbatim>\<open>$match\<close> stage. The \<^verbatim>\<open>_id\<close> of a
  stored question is an ObjectId. \<^verbatim>\<open>excludeIds\<close> holds JavaScript strings (the results
  of \<^verbatim>\<open>toString()\<close>), \<^verbatim>\<open>pool.questions\<close> holds ObjectIds. Mongoose sends the stages of
  \<^verbatim>\<open>Model.aggregate\<close> to the server as they are written (it casts the filter of a
  \<^verbatim>\<open>find\<close> to the schema, never a pipeline), and the server compares a string and an
  ObjectId as different values, whatever their digits.
\<close>

datatype bson = BObjectId objectId | BString string

text \<open>
  Whether a stored question passes the \<^verbatim>\<open>$match\<close> stage that \<^verbatim>\<open>selectQuestions\<close> builds
  for the cell \<open>req\<close>.
\<close>

definition matchesQuery ::
  "breakdownCell \<Rightarrow> string list \<Rightarrow> string list option \<Rightarrow> pool option \<Rightarrow> question \<Rightarrow> bool" where
  "matchesQuery req excludeIds cats pool q =
     (difficulty q = req_difficulty req
      \<and> questionType q = req_type req
      \<and> isActive q
      \<and> BObjectId (q_id q) \<notin> set (map BString excludeIds)
      \<and> (case cats of
            Some cs \<Rightarrow> if cs \<noteq> [] then category q \<in> set cs else True
          | None \<Rightarrow> True)
      \<and> (case pool of
            Some p \<Rightarrow> if pool_questions p \<noteq> []
                      then BObjectId (q_id q) \<in> set (map BObjectId (pool_questions p))
                      else True
          | None \<Rightarrow> True))"

text \<open>
  The \<^verbatim>\<open>$sample\<close> stage: given the documents that passed \<^verbatim>\<open>$match\<close> and a size, the
  documents it lets through.
\<close>

type_synonym sampler = "question list \<Rightarrow> nat \<Rightarrow> question list"

text \<open>
  The contract of the stage (and of \<^verbatim>\<open>Store.sample\<close> in the specification): up to
  \<open>n\<close> distinct documents among those given.
\<close>

definition sampler_ok :: "sampler \<Rightarrow> bool" where
  "sampler_ok sample =
     (\<forall>docs n. length (sample docs n) \<le> n \<and> set (sample docs n) \<subseteq> set docs
        \<and> (distinct (map q_id docs) \<longrightarrow> distinct (map q_id (sample docs n))))"

text \<open>
  \<^verbatim>\<open>selectQuestions(breakdown, excludeIds, categories, pool)\<close> over the stored questions
  \<open>store\<close>. The function returns \<^verbatim>\<open>selected\<close> and the array \<^verbatim>\<open>excludeIds\<close> as the loop
  leaves it.
\<close>

fun selectQuestions ::
  "sampler \<Rightarrow> question list \<Rightarrow> breakdownCell list \<Rightarrow> string list \<Rightarrow> string list option
   \<Rightarrow> pool option \<Rightarrow> question list \<times> string list" where
  "selectQuestions sample store [] excludeIds cats pool = ([], excludeIds)"
| "selectQuestions sample store (req # breakdown) excludeIds cats pool =
     (let qs = sample (filter (matchesQuery req excludeIds cats pool) store) (nat (req_count req))
      in case selectQuestions sample store breakdown (excludeIds @ map q_id qs) cats pool of
           (selected, excludeIds') \<Rightarrow> (qs @ selected, excludeIds'))"

text \<open>
  \<^verbatim>\<open>aiQuestionGenerator.generateQuestions({category, difficulty, questionType, count})\<close>
  followed by \<^verbatim>\<open>saveGeneratedQuestions\<close>: the saved questions.
\<close>

type_synonym generator = "string \<Rightarrow> string \<Rightarrow> string \<Rightarrow> int \<Rightarrow> question list"

text \<open>An index in \<open>0..<n\<close> from the next draw: \<^verbatim>\<open>Math.floor(Math.random() * n)\<close>.\<close>

definition randomIndex :: "nat list \<Rightarrow> nat \<Rightarrow> nat" where
  "randomIndex draws n = (case draws of [] \<Rightarrow> 0 | r # _ \<Rightarrow> r mod n)"

definition cellKey :: "string \<Rightarrow> string \<Rightarrow> string" where
  "cellKey d t = d @ ''-'' @ t"

text \<open>
  The loop \<^verbatim>\<open>for (const req of breakdown)\<close> of \<^verbatim>\<open>generateAdditionalQuestions\<close>: the array
  \<^verbatim>\<open>generated\<close> and the draws left.
\<close>

fun generateMissing ::
  "generator \<Rightarrow> question list \<Rightarrow> string list option \<Rightarrow> breakdownCell list \<Rightarrow> nat list
   \<Rightarrow> question list \<times> nat list" where
  "generateMissing gen existing cats [] draws = ([], draws)"
| "generateMissing gen existing cats (req # breakdown) draws =
     (let have = int (length (filter
                   (\<lambda>q. cellKey (difficulty q) (questionType q)
                        = cellKey (req_difficulty req) (req_type req)) existing));
          need = req_count req - have
      in if need > 0 then
           (case (case cats of
                    Some cs \<Rightarrow> if cs \<noteq> [] then (cs ! randomIndex draws (length cs), tl draws)
                              else (''General'', draws)
                  | None \<Rightarrow> (''General'', draws)) of
              (cat, draws1) \<Rightarrow>
                (case generateMissing gen existing cats breakdown draws1 of
                   (generated, draws2) \<Rightarrow>
                     (gen cat (req_difficulty req) (req_type req) need @ generated, draws2)))
         else generateMissing gen existing cats breakdown draws)"

definition generateAdditionalQuestions ::
  "generator \<Rightarrow> int \<Rightarrow> breakdownCell list \<Rightarrow> question list \<Rightarrow> string list option \<Rightarrow> nat list
   \<Rightarrow> question list" where
  "generateAdditionalQuestions gen cnt breakdown existing cats draws =
     take (nat cnt) (fst (generateMissing gen existing cats breakdown draws))"

text \<open>\<^verbatim>\<open>shuffleArray\<close>: the loop \<^verbatim>\<open>for (let i = length - 1; i > 0; i--)\<close> and the copy.\<close>

fun shuffleLoop :: "nat \<Rightarrow> nat list \<Rightarrow> 'a list \<Rightarrow> 'a list" where
  "shuffleLoop 0 draws shuffled = shuffled"
| "shuffleLoop (Suc k) draws shuffled =
     (let j = randomIndex draws (Suc k + 1)
      in shuffleLoop k (tl draws) (shuffled[Suc k := shuffled ! j, j := shuffled ! Suc k]))"

definition shuffleArray :: "'a list \<Rightarrow> nat list \<Rightarrow> 'a list" where
  "shuffleArray array draws = shuffleLoop (length array - 1) draws array"

text \<open>
  The \<^verbatim>\<open>config\<close> argument of \<^verbatim>\<open>selectQuestionsForTest\<close>; \<open>defaultConfig\<close> holds the
  defaults of the destructuring.
\<close>

record config =
  poolId :: "objectId option"
  totalQuestions :: int
  difficultyDistribution :: difficultyDist
  categories :: "string list option"
  questionTypes :: typeDist
  avoidRecentQuestions :: bool
  recentQuestionDays :: int
  generateIfNeeded :: bool

definition defaultConfig :: config where
  "defaultConfig =
     \<lparr>poolId = None, totalQuestions = 7,
      difficultyDistribution = \<lparr>easy = 30, medium = 50, hard = 20\<rparr>,
      categories = None,
      questionTypes = \<lparr>MCQ = 70, Coding = Some 20, TrueFalse = 10\<rparr>,
      avoidRecentQuestions = True, recentQuestionDays = 30, generateIfNeeded = True\<rparr>"

text \<open>
  \<^verbatim>\<open>selectQuestionsForTest(studentId, config)\<close>: the list it returns and the database it
  leaves (a history created on first access, the generated questions saved).
\<close>

definition selectQuestionsForTest ::
  "sampler \<Rightarrow> generator \<Rightarrow> nat list \<Rightarrow> int \<Rightarrow> db \<Rightarrow> objectId \<Rightarrow> config
   \<Rightarrow> question list \<times> db" where
  "selectQuestionsForTest sample gen draws now d studentId cfg =
     (case getStudentHistory d studentId of
        (h, d1) \<Rightarrow>
          let recentlySeenIds =
                (if avoidRecentQuestions cfg
                 then getRecentlySeenQuestionIds h (recentQuestionDays cfg) now else []);
              pool = (case poolId cfg of
                        Some pid \<Rightarrow> find (\<lambda>p. pool_id p = pid) (pools d1)
                      | None \<Rightarrow> find (\<lambda>p. isDefault p \<and> pool_isActive p) (pools d1));
              questionBreakdown =
                calculateQuestionBreakdown (totalQuestions cfg) (difficultyDistribution cfg)
                  (questionTypes cfg);
              selectedQuestions =
                fst (selectQuestions sample (questions d1) questionBreakdown recentlySeenIds
                       (categories cfg) pool)
          in if int (length selectedQuestions) < totalQuestions cfg \<and> generateIfNeeded cfg
             then
               (shuffleArray
                  (selectedQuestions @
                   generateAdditionalQuestions gen
                     (totalQuestions cfg - int (length selectedQuestions))
                     questionBreakdown selectedQuestions (categories cfg) draws)
                  (snd (generateMissing gen selectedQuestions (categories cfg)
                          questionBreakdown draws)),
                d1\<lparr>questions := questions d1 @
                      fst (generateMissing gen selectedQuestions (categories cfg)
                             questionBreakdown draws)\<rparr>)
             else (shuffleArray selectedQuestions draws, d1))"

section \<open>Notions the properties are stated with\<close>

text \<open>
  A test case succeeds when the sandbox returns and the text of the result is the expected
  output: the negation of the two ways \<^verbatim>\<open>submitTest\<close> sets \<^verbatim>\<open>passedAllCases = false\<close>.
\<close>

definition casePasses :: "sandbox \<Rightarrow> jsval \<Rightarrow> testCase \<Rightarrow> bool" where
  "casePasses vm ans testCase = (vm (caseProgram ans testCase) = Returned (tc_output testCase))"

text \<open>
  The pass rule as the specification words it, for comparison with \<open>isPassed\<close>: the
  passing fraction is the \<^verbatim>\<open>passingPercentage\<close> of the Test's config (60 by default in
  the schema), as a fraction.
\<close>

definition spec_isPassed :: "test \<Rightarrow> nat \<Rightarrow> bool" where
  "spec_isPassed t score =
     (int score \<ge> Math_ceil (real (length (t_questions t))
        * (real_of_int (passingPercentage t) / 100)))"

text \<open>Two stored questions that differ at most in the answer and in the test cases.\<close>

definition sameButAnswers :: "question \<Rightarrow> question \<Rightarrow> bool" where
  "sameButAnswers q q' = (q' = q\<lparr>correctAnswer := correctAnswer q', testCases := testCases q'\<rparr>)"

text \<open>The entries \<^verbatim>\<open>updateStudentHistory\<close> appends to the log: those past the old ones.\<close>

definition appendedEntries :: "history \<Rightarrow> history \<Rightarrow> seenQuestion list" where
  "appendedEntries old new = drop (length (seenQuestions old)) (seenQuestions new)"

text \<open>
  The rounded MCQ and Coding shares of a tier of \<open>c\<close> questions, and the condition that
  no remainder of the breakdown is negative: the hard tier, and the TrueFalse share of
  each tier.
\<close>

definition mcqShare :: "typeDist \<Rightarrow> int \<Rightarrow> int" where
  "mcqShare typeDist c = Math_round (of_int c * (MCQ typeDist / 100))"

definition codingShare :: "typeDist \<Rightarrow> int \<Rightarrow> int" where
  "codingShare typeDist c =
     Math_round (of_int c * ((case Coding typeDist of None \<Rightarrow> 0 | Some v \<Rightarrow> v) / 100))"

definition remaindersNonNegative :: "int \<Rightarrow> difficultyDist \<Rightarrow> typeDist \<Rightarrow> bool" where
  "remaindersNonNegative tot difficultyDist typeDist =
     (0 \<le> hardCount tot difficultyDist
      \<and> mcqShare typeDist (easyCount tot difficultyDist)
          + codingShare typeDist (easyCount tot difficultyDist) \<le> easyCount tot difficultyDist
      \<and> mcqShare typeDist (mediumCount tot difficultyDist)
          + codingShare typeDist (mediumCount tot difficultyDist)
          \<le> mediumCount tot difficultyDist
      \<and> mcqShare typeDist (hardCount tot difficultyDist)
          + codingShare typeDist (hardCount tot difficultyDist) \<le> hardCount tot difficultyDist)"

text \<open>The percentages of a valid configuration are not negative.\<close>

definition validPercentages :: "difficultyDist \<Rightarrow> typeDist \<Rightarrow> bool" where
  "validPercentages difficultyDist typeDist =
     (0 \<le> easy difficultyDist \<and> 0 \<le> medium difficultyDist \<and> 0 \<le> hard difficultyDist
      \<and> 0 \<le> MCQ typeDist \<and> 0 \<le> (case Coding typeDist of None \<Rightarrow> 0 | Some v \<Rightarrow> v))"

subsection \<open>Example data\<close>

definition exampleQuestion :: "objectId \<Rightarrow> string \<Rightarrow> string \<Rightarrow> jsval \<Rightarrow> question" where
  "exampleQuestion i ty diff correctAns =
     \<lparr>q_id = i, questionType = ty, questionText = ''Question '' @ i, options = [''A'', ''B''],
      correctAnswer = correctAns, testCases = [], difficulty = diff, category = ''General'',
      explanation = [], points = 1, isActive = True\<rparr>"

definition emptyDb :: db where
  "emptyDb =
     \<lparr>questions = [], pools = [], tests = Map.empty, submissions = [], histories = Map.empty,
      leaveRequests = Map.empty, users = [], notifications = [], consoleErrors = []\<rparr>"

definition exampleStudent :: user where
  "exampleStudent = \<lparr>u_id = ''s1'', u_name = ''Ada'', u_email = ''ada@example.org'',
                      u_role = ''student''\<rparr>"

definition exampleTest :: "question list \<Rightarrow> test" where
  "exampleTest qs =
     \<lparr>t_id = ''t1'', t_leaveRequest = ''l1'', t_student = ''s1'', t_questions = qs,
      passingPercentage = 60, shuffleQuestions = True, shuffleOptions = True, t_score = 0,
      totalPoints = int (length qs), t_status = ''Assigned''\<rparr>"

text \<open>A database with one test \<open>t\<close>, its leave request and one admin.\<close>

definition exampleDb :: "test \<Rightarrow> db" where
  "exampleDb t =
     emptyDb\<lparr>tests := [t_id t \<mapsto> t],
             leaveRequests := [t_leaveRequest t \<mapsto>
               \<lparr>lr_id = t_leaveRequest t, lr_subject = ''Leave'', lr_status = ''Test Assigned''\<rparr>],
             users := [\<lparr>u_id = ''a1'', u_name = ''Root'', u_email = ''root@example.org'',
                        u_role = ''admin''\<rparr>, exampleStudent]\<rparr>"

text \<open>
  A Coding question with three test cases, a submitted program, and a sandbox in which the
  second case runs into the timeout while the first and the third return what is expected.
\<close>

definition exampleCodingQuestion :: question where
  "exampleCodingQuestion =
     (exampleQuestion ''q9'' ''Coding'' ''hard'' Undefined)
       \<lparr>testCases := [\<lparr>tc_input = ''1'', tc_output = ''2''\<rparr>,
                      \<lparr>tc_input = ''2'', tc_output = ''4''\<rparr>,
                      \<lparr>tc_input = ''3'', tc_output = ''6''\<rparr>]\<rparr>"

definition exampleCodingAnswer :: submittedAnswer where
  "exampleCodingAnswer = \<lparr>questionId = Str ''q9'', answer = Str ''solution = slow''\<rparr>"

definition exampleSandbox :: sandbox where
  "exampleSandbox program =
     (if program = ''solution = slow'' @ [CHR 0x0A] @ ''; solution(1);'' then Returned ''2''
      else if program = ''solution = slow'' @ [CHR 0x0A] @ ''; solution(2);'' then Timeout
      else Returned ''6'')"

text \<open>A learner with 17 correct answers out of 20 attempts.\<close>

definition exampleHistoryDb :: db where
  "exampleHistoryDb =
     emptyDb\<lparr>histories := [''s1'' \<mapsto> (newHistory ''s1'')
               \<lparr>totalQuestionsAttempted := 20, correctAnswers := 17\<rparr>]\<rparr>"

text \<open>Ten MCQ questions \<open>q0 .. q9\<close> with the answer \<open>A\<close>, and right answers to the first five.\<close>

definition tenQuestions :: "question list" where
  "tenQuestions =
     map (\<lambda>i. exampleQuestion i ''MCQ'' ''easy'' (Str ''A''))
       [''q0'', ''q1'', ''q2'', ''q3'', ''q4'', ''q5'', ''q6'', ''q7'', ''q8'', ''q9'']"

definition fiveRightAnswers :: "submittedAnswer list" where
  "fiveRightAnswers =
     map (\<lambda>i. \<lparr>questionId = Str i, answer = Str ''A''\<rparr>) [''q0'', ''q1'', ''q2'', ''q3'', ''q4'']"

text \<open>A TrueFalse question and the answer that is string-equal to its stored answer.\<close>

definition trueFalseQuestion :: question where
  "trueFalseQuestion = exampleQuestion ''q1'' ''TrueFalse'' ''easy'' (Str ''True'')"

definition trueFalseAnswer :: submittedAnswer where
  "trueFalseAnswer = \<lparr>questionId = Str ''q1'', answer = Str ''True''\<rparr>"

text \<open>
  Two MCQ questions and right answers to both, sent in the opposite order of the questions.
\<close>

definition twoQuestions :: "question list" where
  "twoQuestions = [exampleQuestion ''q1'' ''MCQ'' ''easy'' (Str ''A''),
                   exampleQuestion ''q2'' ''MCQ'' ''easy'' (Str ''B'')]"

definition swappedAnswers :: "submittedAnswer list" where
  "swappedAnswers = [\<lparr>questionId = Str ''q2'', answer = Str ''B''\<rparr>,
                     \<lparr>questionId = Str ''q1'', answer = Str ''A''\<rparr>]"

text \<open>A \<^verbatim>\<open>$sample\<close> stage that lets the first \<open>n\<close> documents through.\<close>

definition firstN :: sampler where
  "firstN docs n = take n docs"

text \<open>
  A store with one easy MCQ question and one easy Coding question, and a request for one
  question, all of it easy, half MCQ and half Coding, without generation.
\<close>

definition twoTypesDb :: db where
  "twoTypesDb =
     emptyDb\<lparr>questions := [exampleQuestion ''q1'' ''MCQ'' ''easy'' (Str ''A''),
                            exampleQuestion ''q2'' ''Coding'' ''easy'' Undefined]\<rparr>"

definition oneQuestionHalfHalf :: config where
  "oneQuestionHalfHalf =
     defaultConfig\<lparr>totalQuestions := 1,
                    difficultyDistribution := \<lparr>easy = 100, medium = 0, hard = 0\<rparr>,
                    questionTypes := \<lparr>MCQ = 50, Coding = Some 50, TrueFalse = 0\<rparr>,
                    generateIfNeeded := False\<rparr>"

text \<open>
  A store with two easy MCQ questions \<open>q1\<close> and \<open>q2\<close>, a learner who saw \<open>q1\<close> one
  second before \<open>exampleNow\<close>, and a request for one easy MCQ question that avoids the
  questions of the last 30 days.
\<close>

definition exampleNow :: int where
  "exampleNow = 1000000000000"

definition seenDb :: db where
  "seenDb =
     emptyDb\<lparr>questions := [exampleQuestion ''q1'' ''MCQ'' ''easy'' (Str ''A''),
                            exampleQuestion ''q2'' ''MCQ'' ''easy'' (Str ''B'')],
             histories := [''s1'' \<mapsto> (newHistory ''s1'')
               \<lparr>seenQuestions := [\<lparr>sq_question = ''q1'', sq_test = ''t0'',
                                   seenAt = 999999999000, answeredCorrectly = True\<rparr>],
                totalQuestionsAttempted := 1, correctAnswers := 1\<rparr>]\<rparr>"

definition oneEasyMcq :: config where
  "oneEasyMcq =
     defaultConfig\<lparr>totalQuestions := 1,
                    difficultyDistribution := \<lparr>easy = 100, medium = 0, hard = 0\<rparr>,
                    questionTypes := \<lparr>MCQ = 100, Coding = None, TrueFalse = 0\<rparr>,
                    generateIfNeeded := False\<rparr>"

text \<open>A store with five easy MCQ questions, and a request for seven without generation.\<close>

definition fiveQuestionsDb :: db where
  "fiveQuestionsDb = emptyDb\<lparr>questions := take 5 tenQuestions\<rparr>"

definition sevenEasyMcq :: config where
  "sevenEasyMcq = oneEasyMcq\<lparr>totalQuestions := 7\<rparr>"

section \<open>Properties\<close>

subsection \<open>The breakdown\<close>

text \<open>
  The end-to-end example of the specification: 10 questions at 30/50/20 give tiers of 3, 5
  and 2 questions.
\<close>

lemma calculateQuestionBreakdown_tiers_example:
  "easyCount 10 \<lparr>easy = 30, medium = 50, hard = 20\<rparr> = 3
   \<and> mediumCount 10 \<lparr>easy = 30, medium = 50, hard = 20\<rparr> = 5
   \<and> hardCount 10 \<lparr>easy = 30, medium = 50, hard = 20\<rparr> = 2"
  by (simp add: easyCount_def mediumCount_def hardCount_def Math_round_def)

lemma calculateQuestionBreakdown_example:
  "calculateQuestionBreakdown 10 \<lparr>easy = 30, medium = 50, hard = 20\<rparr>
     \<lparr>MCQ = 70, Coding = Some 20, TrueFalse = 10\<rparr> =
   [\<lparr>req_difficulty = ''easy'', req_type = ''MCQ'', req_count = 2\<rparr>,
    \<lparr>req_difficulty = ''easy'', req_type = ''Coding'', req_count = 1\<rparr>,
    \<lparr>req_difficulty = ''medium'', req_type = ''MCQ'', req_count = 4\<rparr>,
    \<lparr>req_difficulty = ''medium'', req_type = ''Coding'', req_count = 1\<rparr>,
    \<lparr>req_difficulty = ''hard'', req_type = ''MCQ'', req_count = 1\<rparr>,
    \<lparr>req_difficulty = ''hard'', req_type = ''TrueFalse'', req_count = 1\<rparr>]"
  by (simp add: calculateQuestionBreakdown_def tierCells_def easyCount_def mediumCount_def
      hardCount_def Math_round_def)

lemma calculateQuestionBreakdown_tier_totals_example:
  "tierTotal ''easy'' (calculateQuestionBreakdown 10 \<lparr>easy = 30, medium = 50, hard = 20\<rparr>
       \<lparr>MCQ = 70, Coding = Some 20, TrueFalse = 10\<rparr>) = 3
   \<and> tierTotal ''medium'' (calculateQuestionBreakdown 10 \<lparr>easy = 30, medium = 50, hard = 20\<rparr>
       \<lparr>MCQ = 70, Coding = Some 20, TrueFalse = 10\<rparr>) = 5
   \<and> tierTotal ''hard'' (calculateQuestionBreakdown 10 \<lparr>easy = 30, medium = 50, hard = 20\<rparr>
       \<lparr>MCQ = 70, Coding = Some 20, TrueFalse = 10\<rparr>) = 2"
  by (simp add: calculateQuestionBreakdown_example tierTotal_def breakdownTotal_def)

text \<open>
  Claim C1 says that the counts of the breakdown sum to the requested total in every valid
  configuration. They do not when two rounded shares both round up: for one question,
  all of it easy, split 50/50 between MCQ and Coding, \<^verbatim>\<open>Math.round(0.5)\<close> is 1 twice, the
  TrueFalse remainder is \<open>-1\<close> and is dropped by \<^verbatim>\<open>if (tfCount > 0)\<close>, and the breakdown
  asks for two questions. The same happens one level up for one question split 50/50
  between easy and medium: the hard remainder \<open>-1\<close> is skipped by
  \<^verbatim>\<open>if (d.count <= 0) continue\<close>. Every number in these two runs is a binary fraction,
  so the double precision arithmetic of the source computes exactly these values.
\<close>

theorem calculateQuestionBreakdown_exceeds_total:
  "calculateQuestionBreakdown 1 \<lparr>easy = 100, medium = 0, hard = 0\<rparr>
       \<lparr>MCQ = 50, Coding = Some 50, TrueFalse = 0\<rparr>
     = [\<lparr>req_difficulty = ''easy'', req_type = ''MCQ'', req_count = 1\<rparr>,
        \<lparr>req_difficulty = ''easy'', req_type = ''Coding'', req_count = 1\<rparr>]
   \<and> breakdownTotal (calculateQuestionBreakdown 1 \<lparr>easy = 100, medium = 0, hard = 0\<rparr>
        \<lparr>MCQ = 50, Coding = Some 50, TrueFalse = 0\<rparr>) = 2
   \<and> hardCount 1 \<lparr>easy = 50, medium = 50, hard = 0\<rparr> = - 1
   \<and> breakdownTotal (calculateQuestionBreakdown 1 \<lparr>easy = 50, medium = 50, hard = 0\<rparr>
        \<lparr>MCQ = 100, Coding = None, TrueFalse = 0\<rparr>) = 2"
  by (simp add: breakdownTotal_def calculateQuestionBreakdown_def tierCells_def easyCount_def
      mediumCount_def hardCount_def Math_round_def)

text \<open>
  What does hold: the cells of a breakdown have positive counts and pairwise different
  (difficulty, type) pairs; a total of 0 gives the empty breakdown; and when the
  percentages are not negative and no remainder is negative, each tier's cells sum to the
  count of the tier and the whole breakdown to the requested total, as in the example of
  the specification.
\<close>

lemma Math_round_nonneg: "0 \<le> x \<Longrightarrow> 0 \<le> Math_round x"
  by (simp add: Math_round_def)

lemma breakdownTotal_append:
  "breakdownTotal (xs @ ys) = breakdownTotal xs + breakdownTotal ys"
  by (simp add: breakdownTotal_def)

lemma tierCells_total:
  assumes "0 \<le> Math_round (of_int c * (MCQ td / 100))"
      and "0 \<le> Math_round (of_int c * ((case Coding td of None \<Rightarrow> 0 | Some v \<Rightarrow> v) / 100))"
      and "Math_round (of_int c * (MCQ td / 100))
           + Math_round (of_int c * ((case Coding td of None \<Rightarrow> 0 | Some v \<Rightarrow> v) / 100)) \<le> c"
  shows "breakdownTotal (tierCells td d c) = c"
  using assms by (auto simp: tierCells_def breakdownTotal_def Let_def)

lemma tierCells_positive: "req \<in> set (tierCells td d c) \<Longrightarrow> 0 < req_count req"
  by (auto simp: tierCells_def Let_def split: if_splits)

lemma calculateQuestionBreakdown_positive:
  "req \<in> set (calculateQuestionBreakdown tot dd td) \<Longrightarrow> 0 < req_count req"
  by (auto simp: calculateQuestionBreakdown_def dest: tierCells_positive)

lemma calculateQuestionBreakdown_zero: "calculateQuestionBreakdown 0 dd td = []"
  by (simp add: calculateQuestionBreakdown_def tierCells_def easyCount_def mediumCount_def
      hardCount_def Math_round_def)

lemma share_nonneg:
  "0 \<le> c \<Longrightarrow> validPercentages dd td \<Longrightarrow> 0 \<le> mcqShare td c \<and> 0 \<le> codingShare td c"
  by (simp add: validPercentages_def mcqShare_def codingShare_def Math_round_nonneg)

lemma tierCells_total_share:
  assumes "0 \<le> c" and "validPercentages dd td" and "mcqShare td c + codingShare td c \<le> c"
  shows "breakdownTotal (tierCells td d c) = c"
  using tierCells_total [of c td d] share_nonneg [OF assms(1,2)] assms(3)
  by (simp add: mcqShare_def codingShare_def)

lemma breakdown_sums_to_total:
  assumes "0 \<le> tot" and "validPercentages dd td" and "remaindersNonNegative tot dd td"
  shows "breakdownTotal (calculateQuestionBreakdown tot dd td) = tot"
proof -
  have e: "0 \<le> easyCount tot dd" and m: "0 \<le> mediumCount tot dd"
    using assms(1,2) by (simp_all add: easyCount_def mediumCount_def validPercentages_def
        Math_round_nonneg)
  have h: "0 \<le> hardCount tot dd"
    using assms(3) by (simp add: remaindersNonNegative_def)
  have "breakdownTotal (tierCells td ''easy'' (easyCount tot dd)) = easyCount tot dd"
    using assms(3) by (intro tierCells_total_share [OF e assms(2)])
      (simp add: remaindersNonNegative_def)
  moreover have "breakdownTotal (tierCells td ''medium'' (mediumCount tot dd))
      = mediumCount tot dd"
    using assms(3) by (intro tierCells_total_share [OF m assms(2)])
      (simp add: remaindersNonNegative_def)
  moreover have "breakdownTotal (tierCells td ''hard'' (hardCount tot dd)) = hardCount tot dd"
    using assms(3) by (intro tierCells_total_share [OF h assms(2)])
      (simp add: remaindersNonNegative_def)
  ultimately show ?thesis
    by (simp add: calculateQuestionBreakdown_def breakdownTotal_append hardCount_def)
qed

lemma breakdown_sums_to_total_example:
  "validPercentages \<lparr>easy = 30, medium = 50, hard = 20\<rparr> \<lparr>MCQ = 70, Coding = Some 20, TrueFalse = 10\<rparr>
   \<and> remaindersNonNegative 10 \<lparr>easy = 30, medium = 50, hard = 20\<rparr>
        \<lparr>MCQ = 70, Coding = Some 20, TrueFalse = 10\<rparr>
   \<and> breakdownTotal (calculateQuestionBreakdown 10 \<lparr>easy = 30, medium = 50, hard = 20\<rparr>
        \<lparr>MCQ = 70, Coding = Some 20, TrueFalse = 10\<rparr>) = 10"
proof -
  have v: "validPercentages \<lparr>easy = 30, medium = 50, hard = 20\<rparr>
      \<lparr>MCQ = 70, Coding = Some 20, TrueFalse = 10\<rparr>"
    by (simp add: validPercentages_def)
  have r: "remaindersNonNegative 10 \<lparr>easy = 30, medium = 50, hard = 20\<rparr>
        \<lparr>MCQ = 70, Coding = Some 20, TrueFalse = 10\<rparr>"
    by (simp add: remaindersNonNegative_def hardCount_def easyCount_def mediumCount_def
        mcqShare_def codingShare_def Math_round_def)
  from breakdown_sums_to_total [OF _ v r] v r show ?thesis by simp
qed

lemma tierCells_difficulty: "req \<in> set (tierCells td d c) \<Longrightarrow> req_difficulty req = d"
  by (auto simp: tierCells_def Let_def split: if_splits)

lemma tierCells_distinct:
  "distinct (map (\<lambda>req. (req_difficulty req, req_type req)) (tierCells td d c))"
  by (simp add: tierCells_def Let_def)

lemma calculateQuestionBreakdown_distinct:
  "distinct (map (\<lambda>req. (req_difficulty req, req_type req))
     (calculateQuestionBreakdown tot dd td))"
  by (auto simp: calculateQuestionBreakdown_def tierCells_distinct dest!: tierCells_difficulty)

subsection \<open>Grading a Coding question\<close>

lemma runTestCases_passed:
  "fst (runTestCases vm ans tcs) = (\<forall>tc \<in> set tcs. casePasses vm ans tc)"
  by (induction tcs) (auto simp: casePasses_def split: vm_outcome.splits prod.splits)

lemma runTestCases_programs:
  "snd (runTestCases vm ans tcs) =
     map (caseProgram ans)
       (takeWhile (casePasses vm ans) tcs @ take 1 (dropWhile (casePasses vm ans) tcs))"
  by (induction tcs) (auto simp: casePasses_def split: vm_outcome.splits prod.splits)

lemma foldl_add_points:
  fixes f :: "'a \<Rightarrow> nat"
  shows "foldl (\<lambda>score a. score + f a) acc xs = acc + sum_list (map f xs)"
  by (induction xs arbitrary: acc) auto

lemma gradeAnswers_sum: "gradeAnswers vm qs as = sum_list (map (answerPoints vm qs) as)"
  by (simp add: gradeAnswers_def foldl_add_points)

text \<open>
  Claim C3. Let the submitted answer \<open>a\<close> be for the Coding question \<open>q\<close> of the test.
  \<^item> The answer earns its point exactly when every test case of \<open>q\<close> succeeds, and nothing
    otherwise (no partial credit).
  \<^item> The sandbox is called on the cases that succeed before the first failing one and on
    that one, and on no case after it.
  \<^item> Whatever happens in the cases of \<open>a\<close>, the answers before and after it are graded:
    the score is the sum of the points of all answers.
  \<^item> With three cases of which the second times out, the answer earns nothing.
\<close>

theorem coding_question_all_or_nothing:
  assumes "find (\<lambda>q. strict_equals (Str (q_id q)) (questionId a)) qs = Some q"
      and "questionType q = ''Coding''"
  shows "answerPoints vm qs a =
           (if (\<forall>tc \<in> set (testCases q). casePasses vm (answer a) tc) then 1 else 0)
    \<and> snd (runTestCases vm (answer a) (testCases q)) =
        map (caseProgram (answer a))
          (takeWhile (casePasses vm (answer a)) (testCases q)
           @ take 1 (dropWhile (casePasses vm (answer a)) (testCases q)))
    \<and> (\<forall>before after. gradeAnswers vm qs (before @ a # after) =
          gradeAnswers vm qs before + answerPoints vm qs a + gradeAnswers vm qs after)
    \<and> (\<forall>tc1 tc2 tc3. testCases q = [tc1, tc2, tc3] \<and> vm (caseProgram (answer a) tc2) = Timeout
          \<longrightarrow> answerPoints vm qs a = 0)"
proof -
  have pts: "answerPoints vm qs a =
      (if fst (runTestCases vm (answer a) (testCases q)) then 1 else 0)"
    using assms by (simp add: answerPoints_def)
  have all_or_nothing: "answerPoints vm qs a =
      (if (\<forall>tc \<in> set (testCases q). casePasses vm (answer a) tc) then 1 else 0)"
    by (simp add: pts runTestCases_passed)
  have second_times_out: "answerPoints vm qs a = 0"
    if "testCases q = [tc1, tc2, tc3]" "vm (caseProgram (answer a) tc2) = Timeout"
    for tc1 tc2 tc3
    using that by (simp add: all_or_nothing casePasses_def)
  show ?thesis
    using all_or_nothing second_times_out
    by (simp add: runTestCases_programs gradeAnswers_sum)
qed

theorem coding_question_all_or_nothing_witness:
  "find (\<lambda>q. strict_equals (Str (q_id q)) (questionId exampleCodingAnswer))
       [exampleCodingQuestion] = Some exampleCodingQuestion
   \<and> questionType exampleCodingQuestion = ''Coding''
   \<and> length (testCases exampleCodingQuestion) = 3
   \<and> exampleSandbox (caseProgram (answer exampleCodingAnswer)
        (testCases exampleCodingQuestion ! 1)) = Timeout
   \<and> answerPoints exampleSandbox [exampleCodingQuestion] exampleCodingAnswer = 0
   \<and> length (snd (runTestCases exampleSandbox (answer exampleCodingAnswer)
         (testCases exampleCodingQuestion))) = 2"
  using coding_question_all_or_nothing
          [of exampleCodingAnswer "[exampleCodingQuestion]" exampleCodingQuestion exampleSandbox]
  by (simp add: exampleCodingQuestion_def exampleCodingAnswer_def exampleQuestion_def
      exampleSandbox_def strict_equals_def casePasses_def caseProgram_def)

subsection \<open>The Difficulty Adviser\<close>

text \<open>
  Claim C7. Let \<open>h\<close> be the learner's history (the stored one, or the fresh one that
  \<^verbatim>\<open>getStudentHistory\<close> creates). Below 10 attempts the adviser returns 30/50/20; from 10
  attempts on, with \<open>accuracy = correctAnswers / totalQuestionsAttempted\<close>, it returns
  10/40/50 when \<open>accuracy \<ge> 0.8\<close>, 25/50/25 when \<open>0.6 \<le> accuracy < 0.8\<close>, and 50/40/10
  otherwise.
\<close>

theorem getAdaptiveDifficulty_bands:
  "(totalQuestionsAttempted (fst (getStudentHistory d s)) < 10 \<longrightarrow>
      fst (getAdaptiveDifficulty d s) = \<lparr>easy = 30, medium = 50, hard = 20\<rparr>)
   \<and> (10 \<le> totalQuestionsAttempted (fst (getStudentHistory d s)) \<longrightarrow>
       (let h = fst (getStudentHistory d s);
            accuracy = real (correctAnswers h) / real (totalQuestionsAttempted h)
        in (accuracy \<ge> 0.8 \<longrightarrow>
              fst (getAdaptiveDifficulty d s) = \<lparr>easy = 10, medium = 40, hard = 50\<rparr>)
         \<and> (0.6 \<le> accuracy \<and> accuracy < 0.8 \<longrightarrow>
              fst (getAdaptiveDifficulty d s) = \<lparr>easy = 25, medium = 50, hard = 25\<rparr>)
         \<and> (accuracy < 0.6 \<longrightarrow>
              fst (getAdaptiveDifficulty d s) = \<lparr>easy = 50, medium = 40, hard = 10\<rparr>)))"
  by (auto simp: getAdaptiveDifficulty_def Let_def split: prod.splits)

text \<open>17 correct answers out of 20 attempts: accuracy 0.85, hence 10/40/50.\<close>

theorem getAdaptiveDifficulty_bands_witness:
  "10 \<le> totalQuestionsAttempted (fst (getStudentHistory exampleHistoryDb ''s1''))
   \<and> real (correctAnswers (fst (getStudentHistory exampleHistoryDb ''s1'')))
       / real (totalQuestionsAttempted (fst (getStudentHistory exampleHistoryDb ''s1''))) = 0.85
   \<and> fst (getAdaptiveDifficulty exampleHistoryDb ''s1'') = \<lparr>easy = 10, medium = 40, hard = 50\<rparr>
   \<and> totalQuestionsAttempted (fst (getStudentHistory emptyDb ''s1'')) < 10
   \<and> fst (getAdaptiveDifficulty emptyDb ''s1'') = \<lparr>easy = 30, medium = 50, hard = 20\<rparr>"
  using getAdaptiveDifficulty_bands [of exampleHistoryDb "''s1''"]
        getAdaptiveDifficulty_bands [of emptyDb "''s1''"]
  by (simp add: getStudentHistory_def exampleHistoryDb_def emptyDb_def newHistory_def Let_def)

subsection \<open>submitTest: what the handler answers\<close>

lemma updateStudentHistory_frame:
  assumes "updateStudentHistory sf now d s tid qs as = (r, d')"
  shows "tests d' = tests d \<and> submissions d' = submissions d
   \<and> leaveRequests d' = leaveRequests d \<and> users d' = users d
   \<and> notifications d' = notifications d \<and> consoleErrors d' = consoleErrors d
   \<and> questions d' = questions d \<and> pools d' = pools d"
  using assms
  by (auto simp: updateStudentHistory_def getStudentHistory_def Let_def
      split: option.splits sum.splits prod.splits if_splits)

lemma updateStudentHistory_save_fails:
  assumes "updateStudentHistory True now d s tid qs as = (r, d')"
  shows "\<exists>e. r = Inl e"
  using assms
  by (auto simp: updateStudentHistory_def Let_def split: sum.splits prod.splits)

lemma submitTest_not_found:
  "tests d tid = None \<Longrightarrow>
   submitTest vm now sf d u tid as tsc = (Inl (HttpError 404 ''Test not found''), d)"
  by (simp add: submitTest_def)

text \<open>
  \<^verbatim>\<open>submitTest\<close> once the test is found, in terms of the outcome \<open>(r, d')\<close> of the
  history update.
\<close>

lemma submitTest_found:
  assumes t: "tests d tid = Some t"
    and d2: "d2 = d\<lparr>tests := (tests d)(tid \<mapsto> t\<lparr>t_score := gradeAnswers vm (t_questions t) as,
                                           t_status := ''Completed''\<rparr>),
           submissions := submissions d @
             [newSubmission t u as tsc (gradeAnswers vm (t_questions t) as)]\<rparr>"
    and upd: "updateStudentHistory sf now d2 (u_id u) (t_id t) (t_questions t) as = (r, d')"
    and d3: "d3 = (case r of
                    Inl e \<Rightarrow> d'\<lparr>consoleErrors := consoleErrors d @
                                 [(''Failed to update question history:'', e)]\<rparr>
                  | Inr h \<Rightarrow> d')"
  shows "submitTest vm now sf d u tid as tsc =
     (case leaveRequests d (t_leaveRequest t) of
        None \<Rightarrow> (Inl (TypeError ''Cannot set properties of null (setting status)''), d3)
      | Some lr \<Rightarrow>
         (Inr \<lparr>r_message = ''Test submitted successfully'',
               r_score = gradeAnswers vm (t_questions t) as,
               r_isPassed = isPassed (gradeAnswers vm (t_questions t) as) (length (t_questions t)),
               r_totalQuestions = length (t_questions t)\<rparr>,
          d3\<lparr>leaveRequests := (leaveRequests d)
                  (t_leaveRequest t \<mapsto> lr\<lparr>lr_status := ''Test Completed''\<rparr>),
              notifications := notifications d @
                  map (adminNotification u lr (gradeAnswers vm (t_questions t) as)
                         (length (t_questions t))
                         (isPassed (gradeAnswers vm (t_questions t) as) (length (t_questions t))))
                      (filter (\<lambda>u. u_role u = ''admin'') (users d))\<rparr>))"
proof -
  have frame: "leaveRequests d' = leaveRequests d" "consoleErrors d' = consoleErrors d"
    "users d' = users d" "notifications d' = notifications d"
    using updateStudentHistory_frame [OF upd] by (simp_all add: d2)
  show ?thesis
    using t upd [unfolded d2] frame
    by (cases r; cases "leaveRequests d (t_leaveRequest t)")
       (simp_all add: submitTest_def Let_def d3)
qed

lemma submitTest_response:
  assumes t: "tests d tid = Some t" and lr: "leaveRequests d (t_leaveRequest t) = Some lr"
  shows "fst (submitTest vm now sf d u tid as tsc) =
     Inr \<lparr>r_message = ''Test submitted successfully'',
          r_score = gradeAnswers vm (t_questions t) as,
          r_isPassed = isPassed (gradeAnswers vm (t_questions t) as) (length (t_questions t)),
          r_totalQuestions = length (t_questions t)\<rparr>"
proof -
  obtain r d' where
    "updateStudentHistory sf now
       (d\<lparr>tests := (tests d)(tid \<mapsto> t\<lparr>t_score := gradeAnswers vm (t_questions t) as,
                                           t_status := ''Completed''\<rparr>),
           submissions := submissions d @
             [newSubmission t u as tsc (gradeAnswers vm (t_questions t) as)]\<rparr>)
       (u_id u) (t_id t) (t_questions t) as = (r, d')"
    by fastforce
  from submitTest_found [OF t refl this refl] lr show ?thesis
    by simp
qed

lemma submitTest_error_or_response:
  "fst (submitTest vm now sf d u tid as tsc) = Inr r \<Longrightarrow>
   \<exists>t. tests d tid = Some t \<and> r_score r = gradeAnswers vm (t_questions t) as
     \<and> r_totalQuestions r = length (t_questions t)
     \<and> r_isPassed r = isPassed (r_score r) (r_totalQuestions r)"
proof (cases "tests d tid")
  case None
  assume "fst (submitTest vm now sf d u tid as tsc) = Inr r"
  with None show ?thesis by (simp add: submitTest_not_found)
next
  case (Some t)
  assume r: "fst (submitTest vm now sf d u tid as tsc) = Inr r"
  obtain r' d' where
    "updateStudentHistory sf now
       (d\<lparr>tests := (tests d)(tid \<mapsto> t\<lparr>t_score := gradeAnswers vm (t_questions t) as,
                                           t_status := ''Completed''\<rparr>),
           submissions := submissions d @
             [newSubmission t u as tsc (gradeAnswers vm (t_questions t) as)]\<rparr>)
       (u_id u) (t_id t) (t_questions t) as = (r', d')"
    by fastforce
  from submitTest_found [OF Some refl this refl] r Some show ?thesis
    by (auto split: option.splits)
qed

lemma isPassed_threshold:
  "isPassed score n = (int score \<ge> \<lceil>real n * 0.6\<rceil>)"
  by (simp add: isPassed_def passingScore_def Math_ceil_def)

lemma exampleTest_sel:
  "t_questions (exampleTest qs) = qs" "t_leaveRequest (exampleTest qs) = ''l1''"
  "t_id (exampleTest qs) = ''t1''"
  "t_questions ((exampleTest qs)\<lparr>passingPercentage := p\<rparr>) = qs"
  "t_leaveRequest ((exampleTest qs)\<lparr>passingPercentage := p\<rparr>) = ''l1''"
  by (simp_all add: exampleTest_def)

lemma exampleDb_sel:
  "tests (exampleDb t) (t_id t) = Some t"
  "leaveRequests (exampleDb t) (t_leaveRequest t) =
     Some \<lparr>lr_id = t_leaveRequest t, lr_subject = ''Leave'', lr_status = ''Test Assigned''\<rparr>"
  "submissions (exampleDb t) = []" "consoleErrors (exampleDb t) = []"
  by (simp_all add: exampleDb_def emptyDb_def)

lemma length_tenQuestions: "length tenQuestions = 10"
  by (simp add: tenQuestions_def)

lemma fiveRightAnswers_score: "gradeAnswers vm tenQuestions fiveRightAnswers = 5"
  by (simp add: gradeAnswers_def answerPoints_def tenQuestions_def fiveRightAnswers_def
      exampleQuestion_def strict_equals_def)

subsection \<open>Objective questions\<close>

text \<open>
  Claim C2 says that an answer to a question of an objective type, MCQ or TrueFalse,
  earns one point exactly when it is string-equal to the stored answer. \<^verbatim>\<open>submitTest\<close> has a
  branch for \<^verbatim>\<open>'MCQ'\<close> and one for \<^verbatim>\<open>'Coding'\<close> and none for \<^verbatim>\<open>'TrueFalse'\<close>: the right
  answer to a TrueFalse question earns nothing, and a test made of that one question is
  failed with score 0. \<^verbatim>\<open>checkAnswer\<close> of the selector, which the history update uses on
  the same answer, treats both types and accepts it.
\<close>

theorem trueFalse_answer_earns_nothing:
  "checkAnswer trueFalseQuestion (answer trueFalseAnswer)
   \<and> answerPoints vm [trueFalseQuestion] trueFalseAnswer = 0
   \<and> fst (submitTest vm now sf (exampleDb (exampleTest [trueFalseQuestion])) exampleStudent
            ''t1'' [trueFalseAnswer] None)
       = Inr \<lparr>r_message = ''Test submitted successfully'', r_score = 0, r_isPassed = False,
              r_totalQuestions = 1\<rparr>"
proof -
  have t: "tests (exampleDb (exampleTest [trueFalseQuestion])) ''t1''
      = Some (exampleTest [trueFalseQuestion])"
    by (simp add: exampleDb_def exampleTest_def emptyDb_def)
  have lr: "leaveRequests (exampleDb (exampleTest [trueFalseQuestion]))
      (t_leaveRequest (exampleTest [trueFalseQuestion]))
      = Some \<lparr>lr_id = ''l1'', lr_subject = ''Leave'', lr_status = ''Test Assigned''\<rparr>"
    by (simp add: exampleDb_def exampleTest_def emptyDb_def)
  have pts: "answerPoints vm [trueFalseQuestion] trueFalseAnswer = 0"
    by (simp add: answerPoints_def trueFalseQuestion_def trueFalseAnswer_def
        exampleQuestion_def strict_equals_def)
  have chk: "checkAnswer trueFalseQuestion (answer trueFalseAnswer)"
    by (simp add: checkAnswer_def trueFalseQuestion_def trueFalseAnswer_def
        exampleQuestion_def strict_equals_def)
  have "\<not> isPassed 0 1" by (simp add: isPassed_threshold)
  then show ?thesis
    using submitTest_response [OF t lr, of vm now sf exampleStudent "[trueFalseAnswer]" None]
      pts chk
    by (simp add: exampleTest_def gradeAnswers_def)
qed

text \<open>
  For an MCQ question the rule of the claim holds: one point exactly when the submitted
  answer is the stored one, with no normalisation of case or type.
\<close>

lemma mcq_answer_points:
  assumes "find (\<lambda>q. strict_equals (Str (q_id q)) (questionId a)) qs = Some q"
      and "questionType q = ''MCQ''"
  shows "answerPoints vm qs a = (if correctAnswer q = answer a then 1 else 0)"
  using assms by (simp add: answerPoints_def strict_equals_def)

lemma mcq_answer_format_sensitive:
  "answerPoints vm [exampleQuestion ''q1'' ''MCQ'' ''easy'' (Str ''useState'')]
      \<lparr>questionId = Str ''q1'', answer = Str ''usestate''\<rparr> = 0
   \<and> answerPoints vm [exampleQuestion ''q1'' ''MCQ'' ''easy'' (Str ''1'')]
      \<lparr>questionId = Str ''q1'', answer = Num 1\<rparr> = 0
   \<and> answerPoints vm [exampleQuestion ''q1'' ''MCQ'' ''easy'' (Str ''useState'')]
      \<lparr>questionId = Str ''q1'', answer = Str ''useState''\<rparr> = 1"
  by (simp add: answerPoints_def exampleQuestion_def strict_equals_def)

subsection \<open>The pass rule\<close>

text \<open>
  Claim C4, as amended. When \<^verbatim>\<open>submitTest\<close> answers, \<open>isPassed\<close> is true exactly when
  \<open>score \<ge> \<lceil>totalQuestions \<times> 0.6\<rceil>\<close>; and the answer stays the same whatever the
  \<^verbatim>\<open>passingPercentage\<close> of the Test's config is set to: the fraction 0.6 is a constant
  of the handler.
\<close>

theorem isPassed_fixed_threshold:
  "(\<forall>r. fst (submitTest vm now sf d u tid as tsc) = Inr r \<longrightarrow>
       r_isPassed r = (int (r_score r) \<ge> \<lceil>real (r_totalQuestions r) * 0.6\<rceil>))
   \<and> (\<forall>t p. tests d tid = Some t \<longrightarrow>
         fst (submitTest vm now sf (d\<lparr>tests := (tests d)(tid \<mapsto> t\<lparr>passingPercentage := p\<rparr>)\<rparr>)
                u tid as tsc)
         = fst (submitTest vm now sf d u tid as tsc))"
proof (intro conjI allI impI)
  fix r assume "fst (submitTest vm now sf d u tid as tsc) = Inr r"
  from submitTest_error_or_response [OF this]
  show "r_isPassed r = (int (r_score r) \<ge> \<lceil>real (r_totalQuestions r) * 0.6\<rceil>)"
    by (auto simp: isPassed_threshold)
next
  fix t p assume t: "tests d tid = Some t"
  let ?d = "d\<lparr>tests := (tests d)(tid \<mapsto> t\<lparr>passingPercentage := p\<rparr>)\<rparr>"
  have t': "tests ?d tid = Some (t\<lparr>passingPercentage := p\<rparr>)" by simp
  show "fst (submitTest vm now sf ?d u tid as tsc) = fst (submitTest vm now sf d u tid as tsc)"
  proof (cases "leaveRequests d (t_leaveRequest t)")
    case (Some lr)
    then show ?thesis
      using submitTest_response [OF t Some] submitTest_response [OF t', of lr] by simp
  next
    case None
    obtain r1 d1 where u1: "updateStudentHistory sf now
       (d\<lparr>tests := (tests d)(tid \<mapsto> t\<lparr>t_score := gradeAnswers vm (t_questions t) as,
                                           t_status := ''Completed''\<rparr>),
           submissions := submissions d @
             [newSubmission t u as tsc (gradeAnswers vm (t_questions t) as)]\<rparr>)
       (u_id u) (t_id t) (t_questions t) as = (r1, d1)"
      by fastforce
    obtain r2 d2 where u2: "updateStudentHistory sf now
       (?d\<lparr>tests := (tests ?d)(tid \<mapsto> (t\<lparr>passingPercentage := p\<rparr>)
                  \<lparr>t_score := gradeAnswers vm (t_questions (t\<lparr>passingPercentage := p\<rparr>)) as,
                   t_status := ''Completed''\<rparr>),
           submissions := submissions ?d @
             [newSubmission (t\<lparr>passingPercentage := p\<rparr>) u as tsc
                (gradeAnswers vm (t_questions (t\<lparr>passingPercentage := p\<rparr>)) as)]\<rparr>)
       (u_id u) (t_id (t\<lparr>passingPercentage := p\<rparr>))
       (t_questions (t\<lparr>passingPercentage := p\<rparr>)) as = (r2, d2)"
      by fastforce
    from submitTest_found [OF t refl u1 refl] submitTest_found [OF t' refl u2 refl] None
    show ?thesis by simp
  qed
qed

theorem isPassed_fixed_threshold_witness:
  "fst (submitTest exampleSandbox 0 False (exampleDb (exampleTest tenQuestions))
          exampleStudent ''t1'' fiveRightAnswers None)
     = Inr \<lparr>r_message = ''Test submitted successfully'', r_score = 5, r_isPassed = False,
            r_totalQuestions = 10\<rparr>
   \<and> \<not> (int 5 \<ge> \<lceil>real 10 * 0.6\<rceil>)
   \<and> tests (exampleDb (exampleTest tenQuestions)) ''t1'' = Some (exampleTest tenQuestions)
   \<and> fst (submitTest exampleSandbox 0 False
          ((exampleDb (exampleTest tenQuestions))
             \<lparr>tests := (tests (exampleDb (exampleTest tenQuestions)))
                 (''t1'' \<mapsto> (exampleTest tenQuestions)\<lparr>passingPercentage := 40\<rparr>)\<rparr>)
          exampleStudent ''t1'' fiveRightAnswers None)
     = Inr \<lparr>r_message = ''Test submitted successfully'', r_score = 5, r_isPassed = False,
            r_totalQuestions = 10\<rparr>"
proof -
  have t: "tests (exampleDb (exampleTest tenQuestions)) ''t1'' = Some (exampleTest tenQuestions)"
    by (simp add: exampleDb_def exampleTest_def emptyDb_def)
  have lr: "leaveRequests (exampleDb (exampleTest tenQuestions))
      (t_leaveRequest (exampleTest tenQuestions))
      = Some \<lparr>lr_id = ''l1'', lr_subject = ''Leave'', lr_status = ''Test Assigned''\<rparr>"
    by (simp add: exampleDb_def exampleTest_def emptyDb_def)
  have len: "length tenQuestions = 10" by (simp add: tenQuestions_def)
  have resp: "fst (submitTest exampleSandbox 0 False (exampleDb (exampleTest tenQuestions))
          exampleStudent ''t1'' fiveRightAnswers None)
     = Inr \<lparr>r_message = ''Test submitted successfully'', r_score = 5,
            r_isPassed = isPassed 5 10, r_totalQuestions = 10\<rparr>"
    using submitTest_response [OF t lr]
    by (simp add: exampleTest_def fiveRightAnswers_score len)
  from isPassed_fixed_threshold
         [of exampleSandbox 0 False "exampleDb (exampleTest tenQuestions)" exampleStudent
             "''t1''" fiveRightAnswers None]
  show ?thesis
    using resp t by simp
qed

text \<open>
  Claim C4 as stated lets the Test's config override the fraction. For a test of ten
  questions whose config says 40 percent, a score of 5 passes by the claim's rule
  (\<open>5 \<ge> \<lceil>10 \<times> 0.4\<rceil> = 4\<close>), and \<^verbatim>\<open>submitTest\<close> answers \<open>isPassed = false\<close>.
\<close>

theorem isPassed_not_from_config_counterexample:
  "fst (submitTest exampleSandbox 0 False
          (exampleDb ((exampleTest tenQuestions)\<lparr>passingPercentage := 40\<rparr>))
          exampleStudent ''t1'' fiveRightAnswers None)
     = Inr \<lparr>r_message = ''Test submitted successfully'', r_score = 5, r_isPassed = False,
            r_totalQuestions = 10\<rparr>
   \<and> spec_isPassed ((exampleTest tenQuestions)\<lparr>passingPercentage := 40\<rparr>) 5"
proof -
  have t: "tests (exampleDb ((exampleTest tenQuestions)\<lparr>passingPercentage := 40\<rparr>)) ''t1''
      = Some ((exampleTest tenQuestions)\<lparr>passingPercentage := 40\<rparr>)"
    by (simp add: exampleDb_def exampleTest_def emptyDb_def)
  have lr: "leaveRequests (exampleDb ((exampleTest tenQuestions)\<lparr>passingPercentage := 40\<rparr>))
      (t_leaveRequest ((exampleTest tenQuestions)\<lparr>passingPercentage := 40\<rparr>))
      = Some \<lparr>lr_id = ''l1'', lr_subject = ''Leave'', lr_status = ''Test Assigned''\<rparr>"
    by (simp add: exampleDb_def exampleTest_def emptyDb_def)
  have len: "length tenQuestions = 10" by (simp add: tenQuestions_def)
  have "\<not> isPassed 5 10" by (simp add: isPassed_threshold)
  moreover have "spec_isPassed ((exampleTest tenQuestions)\<lparr>passingPercentage := 40\<rparr>) 5"
    by (simp add: spec_isPassed_def exampleTest_def len Math_ceil_def)
  ultimately show ?thesis
    using submitTest_response [OF t lr]
    by (simp add: exampleTest_def fiveRightAnswers_score len)
qed

subsection \<open>A failing history update\<close>

text \<open>
  Claim C8. Compare \<^verbatim>\<open>submitTest\<close> when \<^verbatim>\<open>history.save()\<close> rejects with the same call
  when it succeeds: the answer to the caller is the same, and so are the stored
  submissions and tests. When the test and its leave request exist, the answer with the
  failing save is the 200 response with the score and the verdict, the submission has been
  stored with them, and \<^verbatim>\<open>console.error\<close> has written one line for the failure.
\<close>

theorem history_failure_keeps_result:
  "fst (submitTest vm now True d u tid as tsc) = fst (submitTest vm now False d u tid as tsc)
   \<and> submissions (snd (submitTest vm now True d u tid as tsc))
       = submissions (snd (submitTest vm now False d u tid as tsc))
   \<and> tests (snd (submitTest vm now True d u tid as tsc))
       = tests (snd (submitTest vm now False d u tid as tsc))
   \<and> (\<forall>t lr. tests d tid = Some t \<and> leaveRequests d (t_leaveRequest t) = Some lr \<longrightarrow>
         fst (submitTest vm now True d u tid as tsc) =
           Inr \<lparr>r_message = ''Test submitted successfully'',
                r_score = gradeAnswers vm (t_questions t) as,
                r_isPassed = isPassed (gradeAnswers vm (t_questions t) as) (length (t_questions t)),
                r_totalQuestions = length (t_questions t)\<rparr>
         \<and> submissions (snd (submitTest vm now True d u tid as tsc)) =
             submissions d @ [newSubmission t u as tsc (gradeAnswers vm (t_questions t) as)]
         \<and> (\<exists>e. consoleErrors (snd (submitTest vm now True d u tid as tsc)) =
             consoleErrors d @ [(''Failed to update question history:'', e)]))"
proof (cases "tests d tid")
  case None
  then show ?thesis by (simp add: submitTest_not_found)
next
  case (Some t)
  let ?d2 = "d\<lparr>tests := (tests d)(tid \<mapsto> t\<lparr>t_score := gradeAnswers vm (t_questions t) as,
                                           t_status := ''Completed''\<rparr>),
           submissions := submissions d @
             [newSubmission t u as tsc (gradeAnswers vm (t_questions t) as)]\<rparr>"
  obtain r1 d1 where u1:
    "updateStudentHistory True now ?d2 (u_id u) (t_id t) (t_questions t) as = (r1, d1)"
    by fastforce
  obtain r2 d2 where u2:
    "updateStudentHistory False now ?d2 (u_id u) (t_id t) (t_questions t) as = (r2, d2)"
    by fastforce
  obtain e where e: "r1 = Inl e"
    using updateStudentHistory_save_fails [OF u1] by blast
  have f1: "tests d1 = tests ?d2" "submissions d1 = submissions ?d2"
    using updateStudentHistory_frame [OF u1] by simp_all
  have f2: "tests d2 = tests ?d2" "submissions d2 = submissions ?d2"
    using updateStudentHistory_frame [OF u2] by simp_all
  note s1 = submitTest_found [OF Some refl u1 refl]
  note s2 = submitTest_found [OF Some refl u2 refl]
  show ?thesis
  proof (cases "leaveRequests d (t_leaveRequest t)")
    case None
    then show ?thesis
      using s1 s2 f1 f2 Some by (cases r2) (simp_all add: e)
  next
    case (Some lr)
    then show ?thesis
      using s1 s2 f1 f2 \<open>tests d tid = Some t\<close> by (cases r2) (simp_all add: e)
  qed
qed

theorem history_failure_keeps_result_witness:
  "tests (exampleDb (exampleTest tenQuestions)) ''t1'' = Some (exampleTest tenQuestions)
   \<and> leaveRequests (exampleDb (exampleTest tenQuestions))
        (t_leaveRequest (exampleTest tenQuestions))
       = Some \<lparr>lr_id = ''l1'', lr_subject = ''Leave'', lr_status = ''Test Assigned''\<rparr>
   \<and> fst (submitTest exampleSandbox 0 True (exampleDb (exampleTest tenQuestions))
          exampleStudent ''t1'' fiveRightAnswers None)
       = Inr \<lparr>r_message = ''Test submitted successfully'', r_score = 5, r_isPassed = False,
              r_totalQuestions = 10\<rparr>
   \<and> map s_score (submissions (snd (submitTest exampleSandbox 0 True
          (exampleDb (exampleTest tenQuestions)) exampleStudent ''t1'' fiveRightAnswers None)))
       = [5]
   \<and> length (consoleErrors (snd (submitTest exampleSandbox 0 True
          (exampleDb (exampleTest tenQuestions)) exampleStudent ''t1'' fiveRightAnswers None)))
       = 1"
proof -
  have t: "tests (exampleDb (exampleTest tenQuestions)) ''t1'' = Some (exampleTest tenQuestions)"
    using exampleDb_sel(1) [of "exampleTest tenQuestions"] by (simp add: exampleTest_sel)
  have lr: "leaveRequests (exampleDb (exampleTest tenQuestions))
      (t_leaveRequest (exampleTest tenQuestions))
      = Some \<lparr>lr_id = ''l1'', lr_subject = ''Leave'', lr_status = ''Test Assigned''\<rparr>"
    using exampleDb_sel(2) [of "exampleTest tenQuestions"] by (simp add: exampleTest_sel)
  have "fst (submitTest exampleSandbox 0 True (exampleDb (exampleTest tenQuestions))
            exampleStudent ''t1'' fiveRightAnswers None) =
           Inr \<lparr>r_message = ''Test submitted successfully'',
                r_score = gradeAnswers exampleSandbox (t_questions (exampleTest tenQuestions))
                            fiveRightAnswers,
                r_isPassed = isPassed (gradeAnswers exampleSandbox
                    (t_questions (exampleTest tenQuestions)) fiveRightAnswers)
                    (length (t_questions (exampleTest tenQuestions))),
                r_totalQuestions = length (t_questions (exampleTest tenQuestions))\<rparr>
         \<and> submissions (snd (submitTest exampleSandbox 0 True
               (exampleDb (exampleTest tenQuestions)) exampleStudent ''t1'' fiveRightAnswers
               None)) =
             submissions (exampleDb (exampleTest tenQuestions)) @
               [newSubmission (exampleTest tenQuestions) exampleStudent fiveRightAnswers None
                  (gradeAnswers exampleSandbox (t_questions (exampleTest tenQuestions))
                     fiveRightAnswers)]
         \<and> (\<exists>e. consoleErrors (snd (submitTest exampleSandbox 0 True
               (exampleDb (exampleTest tenQuestions)) exampleStudent ''t1'' fiveRightAnswers
               None)) =
             consoleErrors (exampleDb (exampleTest tenQuestions)) @
               [(''Failed to update question history:'', e)])"
    using history_failure_keeps_result
            [of exampleSandbox 0 "exampleDb (exampleTest tenQuestions)" exampleStudent
                "''t1''" fiveRightAnswers None] t lr
    by blast
  moreover have "\<not> isPassed 5 10" by (simp add: isPassed_threshold)
  ultimately show ?thesis
    using t lr
    by (auto simp: fiveRightAnswers_score exampleTest_sel length_tenQuestions exampleDb_sel
        newSubmission_def)
qed

subsection \<open>The aggregates of the history\<close>

text \<open>
  Claim C9 says that, whatever the order of the answers, \<^verbatim>\<open>correctAnswers\<close> grows by
  the number of appended entries with \<^verbatim>\<open>answeredCorrectly = true\<close>. The entries are
  computed by looking the answer up by question id (\<^verbatim>\<open>answers.find\<close>), the aggregate by
  pairing the answer at index \<open>i\<close> with the question at index \<open>i\<close>
  (\<^verbatim>\<open>answers.filter((a, i) => checkAnswer(questions[i], ...))\<close>). With two questions
  answered rightly, the answers sent in the opposite order, two entries are appended with
  \<^verbatim>\<open>answeredCorrectly = true\<close> and \<^verbatim>\<open>correctAnswers\<close> stays 0.
\<close>

theorem updateStudentHistory_counts_by_position:
  "fst (updateStudentHistory False now emptyDb ''s1'' ''t1'' twoQuestions swappedAnswers)
     = Inr \<lparr>student = ''s1'',
            seenQuestions =
              [\<lparr>sq_question = ''q1'', sq_test = ''t1'', seenAt = now, answeredCorrectly = True\<rparr>,
               \<lparr>sq_question = ''q2'', sq_test = ''t1'', seenAt = now, answeredCorrectly = True\<rparr>],
            totalQuestionsAttempted = 2,
            correctAnswers = 0,
            categoryPerformance = [(''General'', \<lparr>attempted = 2, correct = 2\<rparr>)],
            difficultyPerformance = [(''easy'', \<lparr>attempted = 2, correct = 2\<rparr>)]\<rparr>"
  by (simp add: updateStudentHistory_def getStudentHistory_def emptyDb_def newHistory_def
      twoQuestions_def swappedAnswers_def exampleQuestion_def recordQuestion_def
      checkAnswer_def strict_equals_def bumpPerf_def Let_def)

text \<open>
  What does hold: a successful update appends one entry per question of the test, adds the
  number of questions to \<^verbatim>\<open>totalQuestionsAttempted\<close>, and stores the history.
\<close>

lemma foldl_recordQuestion_seen:
  "seenQuestions (foldl (recordQuestion now tid as) h qs)
   = seenQuestions h @
     map (\<lambda>q. \<lparr>sq_question = q_id q, sq_test = tid, seenAt = now,
               answeredCorrectly =
                 (case find (\<lambda>a. strict_equals (questionId a) (Str (q_id q))) as of
                    None \<Rightarrow> False | Some a \<Rightarrow> checkAnswer q (answer a))\<rparr>) qs"
  by (induction qs arbitrary: h) (simp_all add: recordQuestion_def Let_def)

lemma foldl_recordQuestion_counters:
  "totalQuestionsAttempted (foldl (recordQuestion now tid as) h qs) = totalQuestionsAttempted h
   \<and> correctAnswers (foldl (recordQuestion now tid as) h qs) = correctAnswers h"
  by (induction qs arbitrary: h) (simp_all add: recordQuestion_def Let_def)

lemma updateStudentHistory_attempted:
  assumes "updateStudentHistory sf now d s tid qs as = (Inr h', d')"
  shows "totalQuestionsAttempted h'
           = totalQuestionsAttempted (fst (getStudentHistory d s)) + length qs
       \<and> length (appendedEntries (fst (getStudentHistory d s)) h') = length qs
       \<and> histories d' s = Some h'"
  using assms
  by (auto simp: updateStudentHistory_def Let_def appendedEntries_def
      foldl_recordQuestion_seen foldl_recordQuestion_counters
      split: prod.splits sum.splits if_splits)

subsection \<open>getTestById\<close>

lemma responseQuestions_getTestById:
  "tests d tid = Some t \<Longrightarrow>
   \<exists>body. getTestById d tid = Inr body \<and> responseQuestions body = map stripQuestion (t_questions t)"
  by (simp add: getTestById_def responseQuestions_def update_conv')

lemma stripQuestion_hides:
  "\<not> hasProperty ''correctAnswer'' (stripQuestion q) \<and> \<not> hasProperty ''testCases'' (stripQuestion q)"
  by (simp add: stripQuestion_def question_toObject_def)

lemma stripQuestion_keeps:
  "hasProperty ''questionText'' (stripQuestion q) \<and> hasProperty ''options'' (stripQuestion q)"
  by (simp add: stripQuestion_def question_toObject_def)

lemma stripQuestion_update:
  "stripQuestion (q\<lparr>correctAnswer := c, testCases := tcs\<rparr>) = stripQuestion q"
  by (simp add: stripQuestion_def question_toObject_def)

lemma stripQuestion_sameButAnswers:
  assumes "sameButAnswers q q'"
  shows "stripQuestion q' = stripQuestion q"
proof -
  from assms have "q' = q\<lparr>correctAnswer := correctAnswer q', testCases := testCases q'\<rparr>"
    by (simp add: sameButAnswers_def)
  then have "stripQuestion q' =
      stripQuestion (q\<lparr>correctAnswer := correctAnswer q', testCases := testCases q'\<rparr>)"
    by simp
  then show ?thesis
    by (simp add: stripQuestion_update)
qed

lemma map_stripQuestion_sameButAnswers:
  "list_all2 sameButAnswers qs qs' \<Longrightarrow> map stripQuestion qs' = map stripQuestion qs"
  by (induction rule: list_all2_induct) (simp_all add: stripQuestion_sameButAnswers)

lemma update_questions_test_toObject:
  "AList.update ''questions'' v (test_toObject (t\<lparr>t_questions := qs'\<rparr>))
   = AList.update ''questions'' v (test_toObject t)"
  by (simp add: test_toObject_def)

text \<open>
  Claim C10. When the test exists, \<^verbatim>\<open>getTestById\<close> answers with a body that has one
  question object per question of the test, none of which has a \<^verbatim>\<open>correctAnswer\<close> or a
  \<^verbatim>\<open>testCases\<close> property. And the answer does not depend on the stored answers and test
  cases: replacing the questions of the test by questions that differ from them in these
  two fields only leaves the answer as it is.
\<close>

theorem getTestById_hides_answers:
  "(\<forall>t. tests d tid = Some t \<longrightarrow>
      (\<exists>body. getTestById d tid = Inr body
         \<and> length (responseQuestions body) = length (t_questions t)
         \<and> (\<forall>qobj \<in> set (responseQuestions body).
               \<not> hasProperty ''correctAnswer'' qobj \<and> \<not> hasProperty ''testCases'' qobj)))
   \<and> (\<forall>t qs'. tests d tid = Some t \<and> list_all2 sameButAnswers (t_questions t) qs' \<longrightarrow>
         getTestById (d\<lparr>tests := (tests d)(tid \<mapsto> t\<lparr>t_questions := qs'\<rparr>)\<rparr>) tid
         = getTestById d tid)"
proof (intro conjI allI impI)
  fix t assume "tests d tid = Some t"
  from responseQuestions_getTestById [OF this]
  show "\<exists>body. getTestById d tid = Inr body
         \<and> length (responseQuestions body) = length (t_questions t)
         \<and> (\<forall>qobj \<in> set (responseQuestions body).
               \<not> hasProperty ''correctAnswer'' qobj \<and> \<not> hasProperty ''testCases'' qobj)"
    using stripQuestion_hides by auto
next
  fix t qs' assume "tests d tid = Some t \<and> list_all2 sameButAnswers (t_questions t) qs'"
  then have t: "tests d tid = Some t" and same: "list_all2 sameButAnswers (t_questions t) qs'"
    by simp_all
  show "getTestById (d\<lparr>tests := (tests d)(tid \<mapsto> t\<lparr>t_questions := qs'\<rparr>)\<rparr>) tid
         = getTestById d tid"
    by (simp add: getTestById_def t map_stripQuestion_sameButAnswers [OF same]
        update_questions_test_toObject)
qed

theorem getTestById_hides_answers_witness:
  "tests (exampleDb (exampleTest [exampleCodingQuestion])) ''t1''
     = Some (exampleTest [exampleCodingQuestion])
   \<and> list_all2 sameButAnswers (t_questions (exampleTest [exampleCodingQuestion]))
        [exampleCodingQuestion\<lparr>correctAnswer := Str ''other'', testCases := []\<rparr>]
   \<and> (\<exists>body qobj. getTestById (exampleDb (exampleTest [exampleCodingQuestion])) ''t1'' = Inr body
         \<and> responseQuestions body = [qobj]
         \<and> \<not> hasProperty ''correctAnswer'' qobj \<and> \<not> hasProperty ''testCases'' qobj)
   \<and> getTestById ((exampleDb (exampleTest [exampleCodingQuestion]))
          \<lparr>tests := (tests (exampleDb (exampleTest [exampleCodingQuestion])))
             (''t1'' \<mapsto> (exampleTest [exampleCodingQuestion])
                \<lparr>t_questions :=
                   [exampleCodingQuestion\<lparr>correctAnswer := Str ''other'', testCases := []\<rparr>]\<rparr>)\<rparr>)
        ''t1''
     = getTestById (exampleDb (exampleTest [exampleCodingQuestion])) ''t1''"
proof -
  let ?d = "exampleDb (exampleTest [exampleCodingQuestion])"
  have t: "tests ?d ''t1'' = Some (exampleTest [exampleCodingQuestion])"
    by (simp add: exampleDb_def exampleTest_def emptyDb_def)
  have same: "list_all2 sameButAnswers (t_questions (exampleTest [exampleCodingQuestion]))
        [exampleCodingQuestion\<lparr>correctAnswer := Str ''other'', testCases := []\<rparr>]"
    by (simp add: exampleTest_def sameButAnswers_def)
  note hides = getTestById_hides_answers [of ?d "''t1''"]
  from hides t obtain body where body: "getTestById ?d ''t1'' = Inr body"
    "length (responseQuestions body) = length (t_questions (exampleTest [exampleCodingQuestion]))"
    "\<forall>qobj \<in> set (responseQuestions body).
       \<not> hasProperty ''correctAnswer'' qobj \<and> \<not> hasProperty ''testCases'' qobj"
    by blast
  from body(2) obtain qobj where qobj: "responseQuestions body = [qobj]"
    by (auto simp: exampleTest_def length_Suc_conv)
  with body(3) have "\<not> hasProperty ''correctAnswer'' qobj \<and> \<not> hasProperty ''testCases'' qobj"
    by simp
  with body(1) qobj have third: "\<exists>body qobj. getTestById ?d ''t1'' = Inr body
         \<and> responseQuestions body = [qobj]
         \<and> \<not> hasProperty ''correctAnswer'' qobj \<and> \<not> hasProperty ''testCases'' qobj"
    by blast
  from hides t same have fourth: "getTestById (?d
          \<lparr>tests := (tests ?d)
             (''t1'' \<mapsto> (exampleTest [exampleCodingQuestion])
                \<lparr>t_questions :=
                   [exampleCodingQuestion\<lparr>correctAnswer := Str ''other'', testCases := []\<rparr>]\<rparr>)\<rparr>)
        ''t1'' = getTestById ?d ''t1''"
    by blast
  from t same third fourth show ?thesis
    by blast
qed

subsection \<open>selectQuestionsForTest\<close>

lemma length_shuffleLoop: "length (shuffleLoop k draws xs) = length xs"
  by (induction k draws xs rule: shuffleLoop.induct) (simp_all add: Let_def)

lemma length_shuffleArray: "length (shuffleArray xs draws) = length xs"
  by (simp add: shuffleArray_def length_shuffleLoop)

text \<open>
  What does hold for every \<^verbatim>\<open>$sample\<close> stage that keeps its contract: the list is never
  longer than the larger of \<^verbatim>\<open>totalQuestions\<close> and the total of the breakdown, hence never
  longer than \<^verbatim>\<open>totalQuestions\<close> when no remainder of the breakdown is negative; for
  \<^verbatim>\<open>totalQuestions = 0\<close> it is empty; without generation it is the shuffled selection
  from the store, however short (five questions for a request of seven when the store has
  five); the ids of the drawn questions are appended to \<^verbatim>\<open>excludeIds\<close>; and no stored
  question is drawn twice, since the cells of a breakdown differ in difficulty or type.
\<close>

lemma shuffleArray_Nil: "shuffleArray [] draws = []"
  by (simp add: shuffleArray_def)

lemma sampler_ok_length: "sampler_ok sample \<Longrightarrow> length (sample docs n) \<le> n"
  by (simp add: sampler_ok_def)

lemma sampler_ok_subset: "sampler_ok sample \<Longrightarrow> set (sample docs n) \<subseteq> set docs"
  by (simp add: sampler_ok_def)

lemma sampler_ok_distinct:
  "sampler_ok sample \<Longrightarrow> distinct (map q_id docs) \<Longrightarrow> distinct (map q_id (sample docs n))"
  by (simp add: sampler_ok_def)

lemma firstN_ok: "sampler_ok firstN"
  by (auto simp: sampler_ok_def firstN_def take_map [symmetric] dest: in_set_takeD)

lemma selectQuestions_length:
  assumes "sampler_ok sample"
  shows "length (fst (selectQuestions sample store bd ex cats pool))
         \<le> sum_list (map (\<lambda>req. nat (req_count req)) bd)"
proof (induction bd arbitrary: ex)
  case Nil
  then show ?case by simp
next
  case (Cons req bd)
  have "length (sample (filter (matchesQuery req ex cats pool) store) (nat (req_count req)))
        \<le> nat (req_count req)"
    using assms by (rule sampler_ok_length)
  with Cons.IH show ?case
    by (simp add: Let_def split: prod.splits) (metis add_mono fst_conv)
qed

lemma selectQuestions_excludeIds:
  "snd (selectQuestions sample store bd ex cats pool)
   = ex @ map q_id (fst (selectQuestions sample store bd ex cats pool))"
  by (induction bd arbitrary: ex) (simp_all add: Let_def case_prod_unfold)

lemma positive_counts_total:
  "(\<And>req. req \<in> set bd \<Longrightarrow> 0 < req_count req) \<Longrightarrow>
   int (sum_list (map (\<lambda>req. nat (req_count req)) bd)) = breakdownTotal bd"
  by (induction bd) (auto simp: breakdownTotal_def less_imp_le)

lemma generateAdditionalQuestions_length:
  "int (length (generateAdditionalQuestions gen cnt bd existing cats draws)) \<le> max 0 cnt"
  by (simp add: generateAdditionalQuestions_def)

lemma selectQuestionsForTest_zero:
  assumes "totalQuestions cfg = 0"
  shows "fst (selectQuestionsForTest sample gen draws now d s cfg) = []"
  using assms
  by (simp add: selectQuestionsForTest_def calculateQuestionBreakdown_zero shuffleArray_Nil
      Let_def split: prod.splits)

lemma selectQuestionsForTest_length:
  assumes "sampler_ok sample"
  shows "int (length (fst (selectQuestionsForTest sample gen draws now d s cfg)))
         \<le> max (totalQuestions cfg)
               (breakdownTotal (calculateQuestionBreakdown (totalQuestions cfg)
                  (difficultyDistribution cfg) (questionTypes cfg)))"
proof -
  obtain h d1 where h: "getStudentHistory d s = (h, d1)" by fastforce
  let ?bd = "calculateQuestionBreakdown (totalQuestions cfg) (difficultyDistribution cfg)
               (questionTypes cfg)"
  let ?ex = "if avoidRecentQuestions cfg
             then getRecentlySeenQuestionIds h (recentQuestionDays cfg) now else []"
  let ?pool = "case poolId cfg of
                 Some pid \<Rightarrow> find (\<lambda>p. pool_id p = pid) (pools d1)
               | None \<Rightarrow> find (\<lambda>p. isDefault p \<and> pool_isActive p) (pools d1)"
  let ?sel = "fst (selectQuestions sample (questions d1) ?bd ?ex (categories cfg) ?pool)"
  have "int (length ?sel) \<le> int (sum_list (map (\<lambda>req. nat (req_count req)) ?bd))"
    using selectQuestions_length [OF assms] by simp
  also have "\<dots> = breakdownTotal ?bd"
    by (rule positive_counts_total) (rule calculateQuestionBreakdown_positive)
  finally have sel: "int (length ?sel) \<le> breakdownTotal ?bd" .
  show ?thesis
  proof (cases "int (length ?sel) < totalQuestions cfg \<and> generateIfNeeded cfg")
    case True
    let ?add = "generateAdditionalQuestions gen (totalQuestions cfg - int (length ?sel)) ?bd
                  ?sel (categories cfg) draws"
    have "int (length ?add) \<le> totalQuestions cfg - int (length ?sel)"
      using generateAdditionalQuestions_length [of gen "totalQuestions cfg - int (length ?sel)"
          ?bd ?sel "categories cfg" draws] True
      by simp
    then have "int (length (?sel @ ?add)) \<le> totalQuestions cfg" by simp
    moreover have "fst (selectQuestionsForTest sample gen draws now d s cfg)
        = shuffleArray (?sel @ ?add)
            (snd (generateMissing gen ?sel (categories cfg) ?bd draws))"
      using True by (simp add: selectQuestionsForTest_def h Let_def)
    ultimately show ?thesis
      by (simp add: length_shuffleArray del: length_append)
  next
    case False
    then have "fst (selectQuestionsForTest sample gen draws now d s cfg)
        = shuffleArray ?sel draws"
      by (auto simp: selectQuestionsForTest_def h Let_def)
    with sel show ?thesis
      by (simp add: length_shuffleArray)
  qed
qed

lemma selectQuestionsForTest_at_most_total:
  assumes "sampler_ok sample" and "0 \<le> totalQuestions cfg"
      and "validPercentages (difficultyDistribution cfg) (questionTypes cfg)"
      and "remaindersNonNegative (totalQuestions cfg) (difficultyDistribution cfg)
             (questionTypes cfg)"
  shows "int (length (fst (selectQuestionsForTest sample gen draws now d s cfg)))
         \<le> totalQuestions cfg"
  using selectQuestionsForTest_length [OF assms(1), of gen draws now d s cfg]
    breakdown_sums_to_total [OF assms(2,3,4)]
  by simp

lemma selectQuestionsForTest_without_generation:
  assumes "\<not> generateIfNeeded cfg" and "getStudentHistory d s = (h, d1)"
  shows "selectQuestionsForTest sample gen draws now d s cfg =
     (shuffleArray
        (fst (selectQuestions sample (questions d1)
           (calculateQuestionBreakdown (totalQuestions cfg) (difficultyDistribution cfg)
              (questionTypes cfg))
           (if avoidRecentQuestions cfg
            then getRecentlySeenQuestionIds h (recentQuestionDays cfg) now else [])
           (categories cfg)
           (case poolId cfg of
              Some pid \<Rightarrow> find (\<lambda>p. pool_id p = pid) (pools d1)
            | None \<Rightarrow> find (\<lambda>p. isDefault p \<and> pool_isActive p) (pools d1))))
        draws, d1)"
  using assms by (simp add: selectQuestionsForTest_def Let_def)

lemma selectQuestionsForTest_short_store_example:
  "length (fst (selectQuestionsForTest firstN gen draws now fiveQuestionsDb ''s1'' sevenEasyMcq))
     = 5
   \<and> totalQuestions sevenEasyMcq = 7 \<and> \<not> generateIfNeeded sevenEasyMcq"
proof -
  have h: "getStudentHistory fiveQuestionsDb ''s1'' =
      (newHistory ''s1'', fiveQuestionsDb\<lparr>histories := [''s1'' \<mapsto> newHistory ''s1'']\<rparr>)"
    by (simp add: getStudentHistory_def fiveQuestionsDb_def emptyDb_def)
  have cfg: "\<not> generateIfNeeded sevenEasyMcq" "totalQuestions sevenEasyMcq = 7"
    "difficultyDistribution sevenEasyMcq = \<lparr>easy = 100, medium = 0, hard = 0\<rparr>"
    "questionTypes sevenEasyMcq = \<lparr>MCQ = 100, Coding = None, TrueFalse = 0\<rparr>"
    "categories sevenEasyMcq = None" "poolId sevenEasyMcq = None"
    by (simp_all add: sevenEasyMcq_def oneEasyMcq_def defaultConfig_def)
  have bd: "calculateQuestionBreakdown 7 \<lparr>easy = 100, medium = 0, hard = 0\<rparr>
       \<lparr>MCQ = 100, Coding = None, TrueFalse = 0\<rparr>
     = [\<lparr>req_difficulty = ''easy'', req_type = ''MCQ'', req_count = 7\<rparr>]"
    by (simp add: calculateQuestionBreakdown_def tierCells_def easyCount_def
      mediumCount_def hardCount_def Math_round_def)
  have sel: "length (fst (selectQuestions firstN (take 5 tenQuestions)
       [\<lparr>req_difficulty = ''easy'', req_type = ''MCQ'', req_count = 7\<rparr>] ex None None)) = 5"
    for ex
    by (simp add: tenQuestions_def firstN_def matchesQuery_def exampleQuestion_def image_iff)
  have store: "questions (fiveQuestionsDb\<lparr>histories := [''s1'' \<mapsto> newHistory ''s1'']\<rparr>)
      = take 5 tenQuestions"
    "pools (fiveQuestionsDb\<lparr>histories := [''s1'' \<mapsto> newHistory ''s1'']\<rparr>) = []"
    by (simp_all add: fiveQuestionsDb_def emptyDb_def)
  have "length (fst (selectQuestionsForTest firstN gen draws now fiveQuestionsDb ''s1''
      sevenEasyMcq)) = 5"
    by (simp only: selectQuestionsForTest_without_generation [OF cfg(1) h] cfg bd store
        length_shuffleArray fst_conv option.case find.simps sel)
  then show ?thesis
    by (simp add: cfg)
qed

lemma selectQuestions_from_store:
  assumes "sampler_ok sample"
      and "q \<in> set (fst (selectQuestions sample store bd ex cats pool))"
  shows "q \<in> set store
     \<and> (difficulty q, questionType q) \<in> (\<lambda>req. (req_difficulty req, req_type req)) ` set bd"
  using assms(2)
proof (induction bd arbitrary: ex)
  case Nil
  then show ?case by simp
next
  case (Cons req bd)
  let ?qs = "sample (filter (matchesQuery req ex cats pool) store) (nat (req_count req))"
  from Cons.prems consider "q \<in> set ?qs"
    | "q \<in> set (fst (selectQuestions sample store bd (ex @ map q_id ?qs) cats pool))"
    by (auto simp: Let_def case_prod_unfold)
  then show ?case
  proof cases
    case 1
    moreover have "set ?qs \<subseteq> set (filter (matchesQuery req ex cats pool) store)"
      using assms(1) by (rule sampler_ok_subset)
    ultimately have "q \<in> set store" "matchesQuery req ex cats pool q" by auto
    then show ?thesis by (simp add: matchesQuery_def)
  next
    case 2
    from Cons.IH [OF this] show ?thesis by auto
  qed
qed

lemma selectQuestions_distinct:
  assumes ok: "sampler_ok sample" and store: "distinct (map q_id store)"
      and cells: "distinct (map (\<lambda>req. (req_difficulty req, req_type req)) bd)"
  shows "distinct (map q_id (fst (selectQuestions sample store bd ex cats pool)))"
  using cells
proof (induction bd arbitrary: ex)
  case Nil
  then show ?case by simp
next
  case (Cons req bd)
  let ?docs = "filter (matchesQuery req ex cats pool) store"
  let ?qs = "sample ?docs (nat (req_count req))"
  let ?rest = "fst (selectQuestions sample store bd (ex @ map q_id ?qs) cats pool)"
  have inj: "inj_on q_id (set store)"
    using store by (simp add: distinct_map)
  have "distinct (map q_id ?docs)"
    using store by (simp add: distinct_map_filter)
  then have qs: "distinct (map q_id ?qs)"
    using ok by (simp add: sampler_ok_distinct)
  have qs_store: "set ?qs \<subseteq> set store" and qs_cell:
    "\<And>q. q \<in> set ?qs \<Longrightarrow> (difficulty q, questionType q) = (req_difficulty req, req_type req)"
  proof -
    have sub: "set ?qs \<subseteq> set ?docs" using ok by (rule sampler_ok_subset)
    then show "set ?qs \<subseteq> set store" by auto
    fix q assume "q \<in> set ?qs"
    with sub have "matchesQuery req ex cats pool q" by auto
    then show "(difficulty q, questionType q) = (req_difficulty req, req_type req)"
      by (simp add: matchesQuery_def)
  qed
  have rest: "distinct (map q_id ?rest)"
    using Cons.IH [of "ex @ map q_id ?qs"] Cons.prems by simp
  have disjoint: "q_id ` set ?qs \<inter> q_id ` set ?rest = {}"
  proof (rule ccontr)
    assume "q_id ` set ?qs \<inter> q_id ` set ?rest \<noteq> {}"
    then obtain a b where a: "a \<in> set ?qs" and b: "b \<in> set ?rest" and ab: "q_id a = q_id b"
      by auto
    from selectQuestions_from_store [OF ok b]
    have b_store: "b \<in> set store"
      and b_cell: "(difficulty b, questionType b)
                     \<in> (\<lambda>req. (req_difficulty req, req_type req)) ` set bd"
      by simp_all
    from a qs_store have "a \<in> set store" by auto
    with inj b_store ab have "a = b" by (auto dest: inj_onD)
    with qs_cell [OF a] b_cell
    have "(req_difficulty req, req_type req)
            \<in> (\<lambda>req. (req_difficulty req, req_type req)) ` set bd"
      by simp
    with Cons.prems show False by auto
  qed
  show ?case
    using qs rest disjoint by (simp add: Let_def case_prod_unfold)
qed

lemma selectQuestions_no_question_twice:
  assumes "sampler_ok sample" and "distinct (map q_id store)"
  shows "distinct (map q_id (fst (selectQuestions sample store
           (calculateQuestionBreakdown tot dd td) ex cats pool)))"
  using selectQuestions_distinct [OF assms calculateQuestionBreakdown_distinct] .

text \<open>
  Claim C5 says that the list \<^verbatim>\<open>selectQuestionsForTest\<close> returns is never longer than
  \<^verbatim>\<open>config.totalQuestions\<close>. The list is as long as the breakdown allows, and the breakdown
  can ask for more than the total when two rounded shares both round up: for one question,
  half MCQ and half Coding, from a store that has an easy question of each type, two
  questions are returned.
\<close>

theorem selectQuestionsForTest_longer_than_total:
  "fst (selectQuestionsForTest firstN gen [] now twoTypesDb ''s1'' oneQuestionHalfHalf)
     = [exampleQuestion ''q2'' ''Coding'' ''easy'' Undefined,
        exampleQuestion ''q1'' ''MCQ'' ''easy'' (Str ''A'')]
   \<and> length (fst (selectQuestionsForTest firstN gen draws now twoTypesDb ''s1''
        oneQuestionHalfHalf)) = 2
   \<and> totalQuestions oneQuestionHalfHalf = 1"
proof -
  have bd: "calculateQuestionBreakdown 1 \<lparr>easy = 100, medium = 0, hard = 0\<rparr>
       \<lparr>MCQ = 50, Coding = Some 50, TrueFalse = 0\<rparr>
     = [\<lparr>req_difficulty = ''easy'', req_type = ''MCQ'', req_count = 1\<rparr>,
        \<lparr>req_difficulty = ''easy'', req_type = ''Coding'', req_count = 1\<rparr>]"
    by (simp add: calculateQuestionBreakdown_def tierCells_def easyCount_def
      mediumCount_def hardCount_def Math_round_def)
  have sel: "fst (selectQuestions firstN (questions twoTypesDb)
       [\<lparr>req_difficulty = ''easy'', req_type = ''MCQ'', req_count = 1\<rparr>,
        \<lparr>req_difficulty = ''easy'', req_type = ''Coding'', req_count = 1\<rparr>] ex None None)
     = [exampleQuestion ''q1'' ''MCQ'' ''easy'' (Str ''A''),
        exampleQuestion ''q2'' ''Coding'' ''easy'' Undefined]" for ex
    by (simp add: twoTypesDb_def emptyDb_def firstN_def matchesQuery_def exampleQuestion_def
        image_iff)
  have all: "fst (selectQuestionsForTest firstN gen ds now twoTypesDb ''s1'' oneQuestionHalfHalf)
     = shuffleArray [exampleQuestion ''q1'' ''MCQ'' ''easy'' (Str ''A''),
        exampleQuestion ''q2'' ''Coding'' ''easy'' Undefined] ds" for ds
    using sel
    by (simp add: selectQuestionsForTest_def getStudentHistory_def oneQuestionHalfHalf_def
        defaultConfig_def bd Let_def twoTypesDb_def emptyDb_def split: prod.splits)
  show ?thesis
    by (simp add: all length_shuffleArray)
       (simp add: shuffleArray_def randomIndex_def oneQuestionHalfHalf_def defaultConfig_def)
qed



text \<open>
  Claim C6 says that with \<^verbatim>\<open>avoidRecentQuestions\<close> no returned question was seen by the
  learner within the window, unless nothing else can be supplied. The learner saw \<open>q1\<close>
  one second ago, the window is 30 days, and \<^verbatim>\<open>getRecentlySeenQuestionIds\<close> returns the text
  of its id. The \<^verbatim>\<open>$match\<close> stage compares the ObjectId of each stored question with that
  text, which it never equals, so \<open>q1\<close> passes the stage beside the unseen \<open>q2\<close>, and a
  \<^verbatim>\<open>$sample\<close> that picks the first document returns \<open>q1\<close>.
\<close>

theorem selectQuestionsForTest_returns_recently_seen:
  "getRecentlySeenQuestionIds (fst (getStudentHistory seenDb ''s1''))
       (recentQuestionDays oneEasyMcq) exampleNow = [''q1'']
   \<and> avoidRecentQuestions oneEasyMcq
   \<and> filter (matchesQuery \<lparr>req_difficulty = ''easy'', req_type = ''MCQ'', req_count = 1\<rparr>
               [''q1''] None None) (questions seenDb)
       = [exampleQuestion ''q1'' ''MCQ'' ''easy'' (Str ''A''),
          exampleQuestion ''q2'' ''MCQ'' ''easy'' (Str ''B'')]
   \<and> fst (selectQuestionsForTest firstN gen draws exampleNow seenDb ''s1'' oneEasyMcq)
       = [exampleQuestion ''q1'' ''MCQ'' ''easy'' (Str ''A'')]"
proof -
  have h: "getStudentHistory seenDb ''s1'' =
      ((newHistory ''s1'')
               \<lparr>seenQuestions := [\<lparr>sq_question = ''q1'', sq_test = ''t0'',
                                   seenAt = 999999999000, answeredCorrectly = True\<rparr>],
                totalQuestionsAttempted := 1, correctAnswers := 1\<rparr>, seenDb)"
    by (simp add: getStudentHistory_def seenDb_def emptyDb_def)
  have recent: "getRecentlySeenQuestionIds (fst (getStudentHistory seenDb ''s1'')) 30 exampleNow
      = [''q1'']"
    by (simp add: h getRecentlySeenQuestionIds_def exampleNow_def newHistory_def)
  have bd: "calculateQuestionBreakdown 1 \<lparr>easy = 100, medium = 0, hard = 0\<rparr>
       \<lparr>MCQ = 100, Coding = None, TrueFalse = 0\<rparr>
     = [\<lparr>req_difficulty = ''easy'', req_type = ''MCQ'', req_count = 1\<rparr>]"
    by (simp add: calculateQuestionBreakdown_def tierCells_def easyCount_def
      mediumCount_def hardCount_def Math_round_def)
  have m: "filter (matchesQuery \<lparr>req_difficulty = ''easy'', req_type = ''MCQ'', req_count = 1\<rparr>
               [''q1''] None None) (questions seenDb)
       = [exampleQuestion ''q1'' ''MCQ'' ''easy'' (Str ''A''),
          exampleQuestion ''q2'' ''MCQ'' ''easy'' (Str ''B'')]"
    by (simp add: seenDb_def emptyDb_def matchesQuery_def exampleQuestion_def)
  have sel: "fst (selectQuestions firstN (questions seenDb)
       [\<lparr>req_difficulty = ''easy'', req_type = ''MCQ'', req_count = 1\<rparr>] [''q1''] None None)
     = [exampleQuestion ''q1'' ''MCQ'' ''easy'' (Str ''A'')]"
    by (simp add: m firstN_def)
  have cfg: "recentQuestionDays oneEasyMcq = 30" "avoidRecentQuestions oneEasyMcq"
    "totalQuestions oneEasyMcq = 1" "\<not> generateIfNeeded oneEasyMcq"
    "poolId oneEasyMcq = None" "categories oneEasyMcq = None"
    "difficultyDistribution oneEasyMcq = \<lparr>easy = 100, medium = 0, hard = 0\<rparr>"
    "questionTypes oneEasyMcq = \<lparr>MCQ = 100, Coding = None, TrueFalse = 0\<rparr>"
    by (simp_all add: oneEasyMcq_def defaultConfig_def)
  have pools: "pools seenDb = []" by (simp add: seenDb_def emptyDb_def)
  have all: "fst (selectQuestionsForTest firstN gen draws exampleNow seenDb ''s1'' oneEasyMcq)
     = shuffleArray [exampleQuestion ''q1'' ''MCQ'' ''easy'' (Str ''A'')] draws"
    using recent sel
    by (simp add: selectQuestionsForTest_def h cfg bd pools Let_def)
  show ?thesis
    using recent m all
    by (simp add: cfg shuffleArray_def)
qed

end
